theory Spec2Isabelle
  imports Complex_Main "HOL-Library.AList"
begin

section \<open>Values, errors and the library functions of Python the code calls\<close>

text \<open>
  The manager is Python. Its floats are modelled as reals: the numbers are finite (no
  NaN, no infinities) and the arithmetic on them is exact. The one exception is the
  count of the prune step, which is a float truncated to an integer: there the
  operations round as Python's floats do (subsection \<open>Rounding to a float\<close> below).
  Its unbounded integers are modelled as \<open>int\<close>, its strings as \<open>string\<close>, and every
  insertion-ordered \<open>dict\<close> as an association list whose keys are kept distinct by the
  operations \<open>AList.update\<close> (assignment \<open>d[k] = v\<close>: in place for a known key, at the end
  for a new one) and \<open>AList.delete\<close> (\<open>d.pop(k, None)\<close>).

  A value read from a snapshot is a JSON value as \<open>json.load\<close> returns it, its numbers
  finite: the tokens \<open>NaN\<close> and \<open>Infinity\<close>, which \<open>json.load\<close> also accepts, and the
  strings that \<open>float\<close> reads as \<open>nan\<close> or \<open>inf\<close> have no counterpart here, and no
  statement below is about a snapshot that holds one.
\<close>

datatype json =
    JNull
  | JBool bool
  | JInt int
  | JFloat real
  | JString string
  | JList "json list"
  | JObject "(string \<times> json) list"

datatype error =
    ValueError string
  | TypeError string
  | AttributeError string
  | KeyError string
  | CallbackError

text \<open>
  Functions of the Python library whose results the code uses but whose definition is
  not part of the repository: the BLAKE2b digest behind \<open>hash_text\<close>, the generator
  \<open>random.Random\<close> (its state is a natural number here), \<open>float\<close> applied to a string
  and \<open>str\<close> applied to a value that is not a string. They are parameters of the model.
\<close>

record pylib =
  hash_text :: "string \<Rightarrow> string"
  rng_seed :: "int \<Rightarrow> nat"
  rng_shuffle :: "nat \<Rightarrow> string list \<Rightarrow> string list \<times> nat"
  rng_random :: "nat \<Rightarrow> real \<times> nat"
  float_of_str :: "string \<Rightarrow> real option"
  str_of_json :: "json \<Rightarrow> string"

definition bindE :: "error + 'a \<Rightarrow> ('a \<Rightarrow> error + 'b) \<Rightarrow> error + 'b" where
  "bindE r f = (case r of Inl e \<Rightarrow> Inl e | Inr x \<Rightarrow> f x)"

fun mapE :: "('a \<Rightarrow> error + 'b) \<Rightarrow> 'a list \<Rightarrow> error + 'b list" where
  "mapE f [] = Inr []"
| "mapE f (x # xs) = bindE (f x) (\<lambda>y. bindE (mapE f xs) (\<lambda>ys. Inr (y # ys)))"

subsection \<open>Decimal integers: \<open>str(n)\<close> and \<open>int(s)\<close>\<close>

definition digit_char :: "nat \<Rightarrow> char" where
  "digit_char d = char_of (48 + d)"

definition is_digit :: "char \<Rightarrow> bool" where
  "is_digit c \<longleftrightarrow> 48 \<le> (of_char c :: nat) \<and> (of_char c :: nat) \<le> 57"

definition digit_val :: "char \<Rightarrow> nat" where
  "digit_val c = of_char c - 48"

fun str_of_nat :: "nat \<Rightarrow> string" where
  "str_of_nat n = (if n < 10 then [digit_char n] else str_of_nat (n div 10) @ [digit_char (n mod 10)])"

declare str_of_nat.simps [simp del]

definition str_of_int :: "int \<Rightarrow> string" where
  "str_of_int i = (if i < 0 then CHR ''-'' # str_of_nat (nat (- i)) else str_of_nat (nat i))"

definition is_space :: "char \<Rightarrow> bool" where
  "is_space c \<longleftrightarrow> (of_char c :: nat) \<in> {9, 10, 11, 12, 13, 28, 29, 30, 31, 32}"

definition strip :: "string \<Rightarrow> string" where
  "strip s = rev (dropWhile is_space (rev (dropWhile is_space s)))"

fun no_double_underscore :: "string \<Rightarrow> bool" where
  "no_double_underscore (a # b # s) = (\<not> (a = CHR ''_'' \<and> b = CHR ''_'') \<and> no_double_underscore (b # s))"
| "no_double_underscore s = True"

definition int_literal_body :: "string \<Rightarrow> bool" where
  "int_literal_body s \<longleftrightarrow> s \<noteq> [] \<and> is_digit (hd s) \<and> is_digit (last s)
     \<and> list_all (\<lambda>c. is_digit c \<or> c = CHR ''_'') s \<and> no_double_underscore s"

definition nat_of_digits :: "string \<Rightarrow> nat" where
  "nat_of_digits s = foldl (\<lambda>a c. 10 * a + digit_val c) 0 s"

definition int_of_str :: "string \<Rightarrow> int option" where
  "int_of_str s =
     (let t = strip s;
          neg = (t \<noteq> [] \<and> hd t = CHR ''-'');
          body = (if t \<noteq> [] \<and> (hd t = CHR ''-'' \<or> hd t = CHR ''+'') then tl t else t)
      in if int_literal_body body
         then Some ((if neg then - 1 else 1) * int (nat_of_digits (filter (\<lambda>c. c \<noteq> CHR ''_'') body)))
         else None)"

subsection \<open>The conversions \<open>int\<close>, \<open>float\<close>, \<open>bool\<close>, \<open>str\<close> and iteration on a JSON value\<close>

definition trunc :: "real \<Rightarrow> int" where
  "trunc r = (if 0 \<le> r then \<lfloor>r\<rfloor> else \<lceil>r\<rceil>)"

fun py_int :: "json \<Rightarrow> error + int" where
  "py_int (JBool b) = Inr (if b then 1 else 0)"
| "py_int (JInt n) = Inr n"
| "py_int (JFloat r) = Inr (trunc r)"
| "py_int (JString s) = (case int_of_str s of Some n \<Rightarrow> Inr n | None \<Rightarrow> Inl (ValueError ''invalid literal for int()''))"
| "py_int _ = Inl (TypeError ''int() argument must be a string or a number'')"

fun py_float :: "pylib \<Rightarrow> json \<Rightarrow> error + real" where
  "py_float L (JBool b) = Inr (if b then 1 else 0)"
| "py_float L (JInt n) = Inr (real_of_int n)"
| "py_float L (JFloat r) = Inr r"
| "py_float L (JString s) = (case float_of_str L s of Some r \<Rightarrow> Inr r | None \<Rightarrow> Inl (ValueError ''could not convert string to float''))"
| "py_float L _ = Inl (TypeError ''float() argument must be a string or a number'')"

fun py_bool :: "json \<Rightarrow> bool" where
  "py_bool JNull = False"
| "py_bool (JBool b) = b"
| "py_bool (JInt n) = (n \<noteq> 0)"
| "py_bool (JFloat r) = (r \<noteq> 0)"
| "py_bool (JString s) = (s \<noteq> [])"
| "py_bool (JList xs) = (xs \<noteq> [])"
| "py_bool (JObject kvs) = (kvs \<noteq> [])"

fun py_str :: "pylib \<Rightarrow> json \<Rightarrow> string" where
  "py_str L (JString s) = s"
| "py_str L v = str_of_json L v"

text \<open>\<open>for x in v\<close>: a list gives its elements, a string its characters, a dict its keys.\<close>

fun py_iter :: "json \<Rightarrow> error + json list" where
  "py_iter (JList xs) = Inr xs"
| "py_iter (JString s) = Inr (map (\<lambda>c. JString [c]) s)"
| "py_iter (JObject kvs) = Inr (map (\<lambda>kv. JString (fst kv)) kvs)"
| "py_iter _ = Inl (TypeError ''object is not iterable'')"

text \<open>\<open>v.items()\<close> and \<open>v.get(k, default)\<close> exist on a dict only.\<close>

fun py_items :: "json \<Rightarrow> error + (string \<times> json) list" where
  "py_items (JObject kvs) = Inr kvs"
| "py_items _ = Inl (AttributeError ''items'')"

fun py_get :: "json \<Rightarrow> string \<Rightarrow> json \<Rightarrow> error + json" where
  "py_get (JObject kvs) k d = Inr (case map_of kvs k of Some v \<Rightarrow> v | None \<Rightarrow> d)"
| "py_get _ k d = Inl (AttributeError ''get'')"

subsection \<open>Bounded windows: \<open>deque(maxlen=n)\<close>\<close>

definition dq_append :: "nat \<Rightarrow> 'a list \<Rightarrow> 'a \<Rightarrow> 'a list" where
  "dq_append n xs x = (let ys = xs @ [x] in drop (length ys - n) ys)"

definition dq_extend :: "nat \<Rightarrow> 'a list \<Rightarrow> 'a list \<Rightarrow> 'a list" where
  "dq_extend n xs ys = foldl (dq_append n) xs ys"


subsection \<open>Rounding to a float\<close>

text \<open>
  A Python float is an IEEE 754 binary64 number, and an arithmetic operation on floats
  returns the exact result rounded to the nearest such number, a tie going to the one
  with an even significand. \<open>float_round\<close> is that rounding for a real of magnitude
  below \<open>2 ^ 1024\<close> (beyond it Python gives an infinity or raises \<open>OverflowError\<close>):
  the spacing of the floats next to \<open>x\<close> is \<open>2 ^ (e - 52)\<close> where
  \<open>2 ^ e \<le> \<bar>x\<bar> < 2 ^ (e + 1)\<close>, and \<open>2 ^ - 1074\<close> near zero. A decimal literal such as
  \<open>0.95\<close> denotes the float \<open>float_round 0.95\<close>.
\<close>

definition ties_even :: "real \<Rightarrow> int" where
  "ties_even x =
     (let f = \<lfloor>x\<rfloor>; d = x - real_of_int f
      in if d < 1 / 2 then f else if 1 / 2 < d then f + 1 else if even f then f else f + 1)"

definition float_round :: "real \<Rightarrow> real" where
  "float_round x =
     (if x = 0 then 0
      else let e = max \<lfloor>log 2 \<bar>x\<bar>\<rfloor> (- 1022);
               u = 2 powr (real_of_int e - 52)
           in real_of_int (ties_even (x / u)) * u)"

text \<open>\<open>float(n)\<close> of an integer, and the product and the difference of two floats.\<close>

definition float_of_int :: "int \<Rightarrow> real" where
  "float_of_int n = float_round (real_of_int n)"

definition float_mul :: "real \<Rightarrow> real \<Rightarrow> real" where
  "float_mul a b = float_round (a * b)"

definition float_sub :: "real \<Rightarrow> real \<Rightarrow> real" where
  "float_sub a b = float_round (a - b)"

section \<open>The data model\<close>

subsection \<open>\<open>memory_state.py\<close>: one trace\<close>

definition clamp01 :: "real \<Rightarrow> real" where
  "clamp01 v = (if v < 0 then 0 else if v > 1 then 1 else v)"

text \<open>
  \<open>MemoryState\<close>. The field \<open>memory_id\<close> is not repeated in the record: a trace is only
  ever held in the manager's \<open>_mem\<close> under the key \<open>state.memory_id\<close>, and the key stands
  for it. \<open>metadata\<close> is a JSON value (\<open>JNull\<close> for \<open>None\<close>).
\<close>

record memory_state =
  ms_text :: string
  embedding :: "real list option"
  metadata :: json
  territory_id :: "int option"
  ttl :: int
  last_touch_tick :: int
  use_count :: int
  mass :: real
  heat :: real
  confidence :: real
  novelty :: real
  boredom :: real
  inhibition :: real
  frontier_hits :: int
  pending_condense :: bool

definition clamp_ranges :: "memory_state \<Rightarrow> memory_state" where
  "clamp_ranges ms = ms\<lparr>
     confidence := clamp01 (confidence ms),
     novelty := clamp01 (novelty ms),
     boredom := clamp01 (boredom ms),
     mass := (if mass ms < 0 then 0 else mass ms),
     heat := (if heat ms < 0 then 0 else heat ms),
     ttl := (if ttl ms < 0 then 0 else ttl ms),
     inhibition := (if inhibition ms < 0 then 0 else inhibition ms)\<rparr>"

text \<open>A trace whose fields are within the ranges \<open>clamp_ranges\<close> enforces.\<close>

definition trace_ok :: "memory_state \<Rightarrow> bool" where
  "trace_ok ms \<longleftrightarrow>
     0 \<le> confidence ms \<and> confidence ms \<le> 1 \<and> 0 \<le> novelty ms \<and> novelty ms \<le> 1
     \<and> 0 \<le> boredom ms \<and> boredom ms \<le> 1 \<and> 0 \<le> mass ms \<and> 0 \<le> heat ms
     \<and> 0 \<le> ttl ms \<and> 0 \<le> inhibition ms"

subsection \<open>\<open>utils.py\<close>\<close>

definition require_int :: "json \<Rightarrow> int \<Rightarrow> string \<Rightarrow> error + int" where
  "require_int v minimum name =
     (case py_int v of
        Inl e \<Rightarrow> Inl (ValueError (name @ '' must be an integer''))
      | Inr cast_value \<Rightarrow>
          if cast_value < minimum then Inl (ValueError (name @ '' must be >= '' @ str_of_int minimum))
          else Inr cast_value)"

definition clamp_real :: "real \<Rightarrow> real \<Rightarrow> real \<Rightarrow> real" where
  "clamp_real v lower upper = (if v < lower then lower else if v > upper then upper else v)"

text \<open>\<open>clamp_float\<close> starts with \<open>float(value)\<close>, which raises on a value that is no number.\<close>

definition clamp_float :: "pylib \<Rightarrow> json \<Rightarrow> real \<Rightarrow> real \<Rightarrow> error + real" where
  "clamp_float L v lower upper = bindE (py_float L v) (\<lambda>x. Inr (clamp_real x lower upper))"

text \<open>
  \<open>clamp01\<close> applied to a constructor argument compares it with \<open>0.0\<close> and \<open>1.0\<close> without
  converting it first: the comparison raises \<open>TypeError\<close> unless the value is a number.
\<close>

fun clamp01_arg :: "json \<Rightarrow> error + real" where
  "clamp01_arg (JBool b) = Inr (clamp01 (if b then 1 else 0))"
| "clamp01_arg (JInt n) = Inr (clamp01 (real_of_int n))"
| "clamp01_arg (JFloat r) = Inr (clamp01 r)"
| "clamp01_arg _ = Inl (TypeError ''< not supported between these types'')"

definition config_defaults :: "(string \<times> json) list" where
  "config_defaults =
    [(''capacity'', JInt 256), (''base_ttl'', JInt 128), (''decay_half_life'', JInt 32),
     (''prune_sample'', JInt 64), (''prune_target_ratio'', JFloat 0.2),
     (''thread_safe'', JBool False), (''seed'', JNull),
     (''recency_half_life_ticks'', JInt 64), (''habituation_start'', JInt 32),
     (''habituation_scale'', JFloat 1.0), (''boredom_weight'', JFloat 0.35),
     (''frontier_novelty_threshold'', JFloat 0.8), (''frontier_patience'', JInt 3),
     (''diffusion_interval'', JInt 12), (''diffusion_kappa'', JFloat 0.25),
     (''exploration_churn_window'', JInt 32), (''condensation_boredom'', JFloat 0.85),
     (''condensation_conf'', JFloat 0.6), (''condensation_mass'', JFloat 5.0)]"

text \<open>
  \<open>merged.update(config)\<close>: a dict argument is merged key by key; any other iterable must
  yield pairs (sequences of length two), anything else raises.
\<close>

fun as_pair :: "json \<Rightarrow> error + json \<times> json" where
  "as_pair (JList [a, b]) = Inr (a, b)"
| "as_pair (JString [a, b]) = Inr (JString [a], JString [b])"
| "as_pair (JObject [(a, x), (b, y)]) = Inr (JString a, JString b)"
| "as_pair _ = Inl (ValueError ''dictionary update sequence element has wrong length'')"

text \<open>
  The merged dict is only ever passed on as \<open>cls(**merged)\<close>, which accepts string keys
  only: a pair whose key is not a string is reported here already.
\<close>

fun kw_pair :: "json \<times> json \<Rightarrow> error + string \<times> json" where
  "kw_pair (JString k, v) = Inr (k, v)"
| "kw_pair _ = Inl (TypeError ''keywords must be strings'')"

definition sanitize_config :: "json \<Rightarrow> error + (string \<times> json) list" where
  "sanitize_config config =
     (case config of
        JObject kvs \<Rightarrow> Inr (foldl (\<lambda>d kv. AList.update (fst kv) (snd kv) d) config_defaults kvs)
      | _ \<Rightarrow>
        bindE (py_iter config) (\<lambda>items.
        bindE (mapE as_pair items) (\<lambda>pairs.
        bindE (mapE kw_pair pairs) (\<lambda>kvs.
          Inr (foldl (\<lambda>d kv. AList.update (fst kv) (snd kv) d) config_defaults kvs)))))"

subsection \<open>\<open>manager.py\<close>: the manager's state\<close>

text \<open>
  The constructor stores each validated parameter twice, in a private attribute and in
  the dict \<open>_config\<close>; neither is assigned again. One record stands for both.
\<close>

record config =
  capacity :: int
  base_ttl :: int
  decay_half_life :: int
  prune_sample :: int
  prune_target_ratio :: real
  thread_safe :: bool
  seed :: "int option"
  recency_half_life_ticks :: int
  habituation_start :: int
  habituation_scale :: real
  boredom_weight :: real
  frontier_novelty_threshold :: real
  frontier_patience :: int
  diffusion_interval :: int
  diffusion_kappa :: real
  exploration_churn_window :: int
  condensation_boredom :: real
  condensation_conf :: real
  condensation_mass :: real

text \<open>
  What the condensation callback does with a batch of texts: it returns \<open>None\<close>, returns
  a pair \<open>(summary_id, summary_text)\<close>, or raises.
\<close>

datatype cb_result = CbNone | CbSummary string string | CbRaises

record manager =
  cfg :: config
  rng :: nat
  mem :: "(string \<times> memory_state) list"
  tick :: int
  events :: "(string \<times> json) list list"
  nn_distances :: "real list"
  territory_centroids :: "(int \<times> real list) list"
  territory_counts :: "(int \<times> int) list"
  territory_member_dists :: "(int \<times> real list) list"
  territory_tau :: real
  next_territory_id :: int
  deterministic_ids :: "(string \<times> int) list"
  reward_ema :: real
  pair_churn :: "((int \<times> int) \<times> int list) list"
  pair_last :: "((int \<times> int) \<times> int) list"
  exploration_temp :: real
  pending_queue :: "string list"
  condense_callback :: "(string list \<Rightarrow> cb_result) option"
  engrams :: "(string \<times> string list) list"
  frontier :: "(string \<times> (string \<times> json) list) list"
  split_counter :: int
  merge_counter :: int

definition param_names :: "string list" where
  "param_names = map fst config_defaults"

definition required_params :: "string list" where
  "required_params = [''capacity'', ''base_ttl'', ''decay_half_life'', ''prune_sample'', ''prune_target_ratio'']"

definition kwarg :: "(string \<times> json) list \<Rightarrow> string \<Rightarrow> json" where
  "kwarg args k = (case map_of args k of Some v \<Rightarrow> v | None \<Rightarrow> the (map_of config_defaults k))"

definition seed_arg :: "json \<Rightarrow> error + int option" where
  "seed_arg v = (if v = JNull then Inr None else bindE (py_int v) (\<lambda>s. Inr (Some s)))"

text \<open>
  \<open>VoidMemoryManager.__init__\<close>, called with keyword arguments \<open>args\<close>. The first five
  parameters have no default. \<open>Random(None)\<close> seeds the generator from the operating
  system's entropy, the argument \<open>entropy\<close> here.
\<close>

definition validate_config :: "pylib \<Rightarrow> (string \<times> json) list \<Rightarrow> error + config" where
  "validate_config L args =
     bindE (require_int (kwarg args ''capacity'') 10 ''capacity'') (\<lambda>v_capacity.
     bindE (require_int (kwarg args ''base_ttl'') 10 ''base_ttl'') (\<lambda>v_base_ttl.
     bindE (require_int (kwarg args ''decay_half_life'') 1 ''decay_half_life'') (\<lambda>v_decay.
     bindE (require_int (kwarg args ''prune_sample'') 16 ''prune_sample'') (\<lambda>v_sample.
     bindE (clamp_float L (kwarg args ''prune_target_ratio'') 0.05 1.0) (\<lambda>v_ratio.
     bindE (seed_arg (kwarg args ''seed'')) (\<lambda>v_seed.
     bindE (require_int (kwarg args ''recency_half_life_ticks'') 1 ''recency_half_life_ticks'') (\<lambda>v_recency.
     bindE (require_int (kwarg args ''habituation_start'') 0 ''habituation_start'') (\<lambda>v_hstart.
     bindE (py_float L (kwarg args ''habituation_scale'')) (\<lambda>v_hscale.
     bindE (clamp_float L (kwarg args ''boredom_weight'') 0.0 1.0) (\<lambda>v_bweight.
     bindE (clamp_float L (kwarg args ''frontier_novelty_threshold'') 0.0 1.0) (\<lambda>v_fnt.
     bindE (require_int (kwarg args ''frontier_patience'') 2 ''frontier_patience'') (\<lambda>v_patience.
     bindE (require_int (kwarg args ''diffusion_interval'') 5 ''diffusion_interval'') (\<lambda>v_dint.
     bindE (clamp_float L (kwarg args ''diffusion_kappa'') 0.0 1.0) (\<lambda>v_kappa.
     bindE (require_int (kwarg args ''exploration_churn_window'') 10 ''exploration_churn_window'') (\<lambda>v_churn.
     bindE (clamp01_arg (kwarg args ''condensation_boredom'')) (\<lambda>v_cb.
     bindE (clamp01_arg (kwarg args ''condensation_conf'')) (\<lambda>v_cc.
     bindE (py_float L (kwarg args ''condensation_mass'')) (\<lambda>v_cm.
       Inr \<lparr>capacity = v_capacity, base_ttl = v_base_ttl, decay_half_life = v_decay,
            prune_sample = v_sample, prune_target_ratio = v_ratio,
            thread_safe = py_bool (kwarg args ''thread_safe''), seed = v_seed,
            recency_half_life_ticks = v_recency, habituation_start = v_hstart,
            habituation_scale = max v_hscale 1.0, boredom_weight = v_bweight,
            frontier_novelty_threshold = v_fnt, frontier_patience = v_patience,
            diffusion_interval = v_dint, diffusion_kappa = v_kappa,
            exploration_churn_window = v_churn, condensation_boredom = v_cb,
            condensation_conf = v_cc, condensation_mass = v_cm\<rparr>))))))))))))))))))"

definition fresh_manager :: "pylib \<Rightarrow> int \<Rightarrow> config \<Rightarrow> manager" where
  "fresh_manager L entropy c =
     \<lparr>cfg = c,
      rng = rng_seed L (case seed c of None \<Rightarrow> entropy | Some s \<Rightarrow> s),
      mem = [], tick = 0, events = [], nn_distances = [],
      territory_centroids = [], territory_counts = [], territory_member_dists = [],
      territory_tau = 0.3, next_territory_id = 10000, deterministic_ids = [],
      reward_ema = 0.0, pair_churn = [], pair_last = [], exploration_temp = 1.0,
      pending_queue = [], condense_callback = None, engrams = [], frontier = [],
      split_counter = 0, merge_counter = 0\<rparr>"

definition new_manager :: "pylib \<Rightarrow> int \<Rightarrow> (string \<times> json) list \<Rightarrow> error + manager" where
  "new_manager L entropy args =
     (if \<not> list_all (\<lambda>k. k \<in> set param_names) (map fst args)
        then Inl (TypeError ''__init__() got an unexpected keyword argument'')
      else if \<not> list_all (\<lambda>k. k \<in> set (map fst args)) required_params
        then Inl (TypeError ''__init__() missing required keyword-only arguments'')
      else bindE (validate_config L args) (\<lambda>c. Inr (fresh_manager L entropy c)))"

definition record_event :: "string \<Rightarrow> (string \<times> json) list \<Rightarrow> manager \<Rightarrow> manager" where
  "record_event event_type payload m =
     m\<lparr>events := dq_append 1024 (events m)
          (AList.update ''tick'' (JInt (tick m)) (AList.update ''type'' (JString event_type) payload))\<rparr>"


section \<open>\<open>territories.py\<close>\<close>

definition normalize_embedding :: "real list \<Rightarrow> real list" where
  "normalize_embedding vector =
     (let norm = sqrt (sum_list (map (\<lambda>v. v * v) vector))
      in if norm = 0 then vector else map (\<lambda>v. v / norm) vector)"

definition cosine_distance :: "real list \<Rightarrow> real list \<Rightarrow> error + real" where
  "cosine_distance a b =
     (if a = [] \<or> b = [] \<or> length a \<noteq> length b
        then Inl (ValueError ''cosine distance requires non-empty vectors of the same length'')
      else
        let dot = sum_list (map (\<lambda>(x, y). x * y) (zip a b));
            norm_a = sqrt (sum_list (map (\<lambda>x. x * x) a));
            norm_b = sqrt (sum_list (map (\<lambda>y. y * y) b))
        in if norm_a = 0 \<or> norm_b = 0 then Inr 1
           else Inr (1 - max (- 1) (min 1 (dot / (norm_a * norm_b)))))"

text \<open>
  \<open>statistics.median\<close> of a non-empty sequence: the middle element of the sorted data,
  or the mean of the two middle elements when their number is even. Its only caller
  guards the empty case.
\<close>

definition median :: "real list \<Rightarrow> real" where
  "median xs =
     (let s = sort xs; n = length s
      in if n mod 2 = 1 then s ! (n div 2) else (s ! (n div 2 - 1) + s ! (n div 2)) / 2)"

definition record_nn_distance :: "manager \<Rightarrow> real \<Rightarrow> manager" where
  "record_nn_distance m distance =
     (let nn = dq_append 5000 (nn_distances m) distance;
          m1 = m\<lparr>nn_distances := nn\<rparr>
      in if nn \<noteq> [] then m1\<lparr>territory_tau := clamp_real (median nn) 0.05 0.6\<rparr> else m1)"

definition warmup_active :: "manager \<Rightarrow> bool" where
  "warmup_active m \<longleftrightarrow> length (nn_distances m) < 1000 \<and> length (territory_centroids m) < 50"

definition create_territory :: "pylib \<Rightarrow> manager \<Rightarrow> real list \<Rightarrow> string \<Rightarrow> int \<times> manager" where
  "create_territory L m emb txt =
     (let tid = next_territory_id m;
          deterministic_id = hash_text L txt;
          m1 = m\<lparr>next_territory_id := tid + 1,
                 territory_centroids := AList.update tid (normalize_embedding emb) (territory_centroids m),
                 territory_counts := AList.update tid 0 (territory_counts m),
                 territory_member_dists := AList.update tid [] (territory_member_dists m),
                 deterministic_ids :=
                   (if map_of (deterministic_ids m) deterministic_id = None
                    then AList.update deterministic_id tid (deterministic_ids m)
                    else deterministic_ids m)\<rparr>
      in (tid, record_event ''territory_create'' [(''id'', JInt tid)] m1))"

definition deterministic_territory :: "pylib \<Rightarrow> manager \<Rightarrow> string \<Rightarrow> int \<times> manager" where
  "deterministic_territory L m txt =
     (let deterministic_id = hash_text L txt
      in case map_of (deterministic_ids m) deterministic_id of
           Some tid \<Rightarrow> (tid, m)
         | None \<Rightarrow>
             let tid = next_territory_id m;
                 m1 = m\<lparr>next_territory_id := tid + 1,
                        territory_counts := AList.update tid 0 (territory_counts m),
                        territory_member_dists := AList.update tid [] (territory_member_dists m),
                        deterministic_ids := AList.update deterministic_id tid (deterministic_ids m)\<rparr>
             in (tid, record_event ''territory_create'' [(''id'', JInt tid)] m1))"

definition get_count :: "manager \<Rightarrow> int \<Rightarrow> int \<Rightarrow> int" where
  "get_count m tid d = (case map_of (territory_counts m) tid of Some c \<Rightarrow> c | None \<Rightarrow> d)"

definition update_centroid :: "manager \<Rightarrow> int \<Rightarrow> real list \<Rightarrow> manager" where
  "update_centroid m tid emb =
     (case map_of (territory_centroids m) tid of
        None \<Rightarrow> m\<lparr>territory_centroids := AList.update tid (normalize_embedding emb) (territory_centroids m)\<rparr>
      | Some centroid \<Rightarrow>
          let count = max 1 (get_count m tid 1);
              updated = map (\<lambda>(c, e). (c * real_of_int count + e) / real_of_int (count + 1)) (zip centroid emb)
          in m\<lparr>territory_centroids := AList.update tid (normalize_embedding updated) (territory_centroids m)\<rparr>)"

text \<open>The search loop of \<open>assign_territory\<close>: the first centroid at the least distance wins.\<close>

fun nearest_centroid ::
  "real list \<Rightarrow> (int \<times> real list) list \<Rightarrow> (int \<times> real) option \<Rightarrow> error + (int \<times> real) option" where
  "nearest_centroid v [] best = Inr best"
| "nearest_centroid v ((tid, centroid) # rest) best =
     bindE (cosine_distance v centroid) (\<lambda>distance.
       nearest_centroid v rest
         (case best of
            None \<Rightarrow> Some (tid, distance)
          | Some (best_tid, best_distance) \<Rightarrow>
              if distance < best_distance then Some (tid, distance) else Some (best_tid, best_distance)))"

definition assign_territory ::
  "pylib \<Rightarrow> manager \<Rightarrow> string \<Rightarrow> real list option \<Rightarrow> error + int \<times> manager" where
  "assign_territory L m txt emb =
     (case emb of
        None \<Rightarrow> Inr (deterministic_territory L m txt)
      | Some e \<Rightarrow>
          let vector = normalize_embedding e
          in if territory_centroids m = [] \<or> warmup_active m then Inr (create_territory L m vector txt)
             else bindE (nearest_centroid vector (territory_centroids m) None) (\<lambda>best.
               case best of
                 None \<Rightarrow> Inr (create_territory L m vector txt)
               | Some (best_tid, best_distance) \<Rightarrow>
                   let m1 = record_nn_distance m best_distance
                   in if best_distance \<le> territory_tau m1
                      then Inr (best_tid, update_centroid m1 best_tid vector)
                      else Inr (create_territory L m1 vector txt)))"

definition territory_radius :: "manager \<Rightarrow> int \<Rightarrow> real" where
  "territory_radius m tid =
     (case map_of (territory_member_dists m) tid of
        None \<Rightarrow> 0
      | Some dists \<Rightarrow> if dists = [] then 0 else foldl max (hd dists) (tl dists))"

definition get_dists :: "manager \<Rightarrow> int \<Rightarrow> real list" where
  "get_dists m tid = (case map_of (territory_member_dists m) tid of Some d \<Rightarrow> d | None \<Rightarrow> [])"

definition merge_territories :: "manager \<Rightarrow> int \<Rightarrow> int \<Rightarrow> manager" where
  "merge_territories m from_tid to_tid =
     (if from_tid = to_tid then m
      else case (map_of (territory_centroids m) from_tid, map_of (territory_centroids m) to_tid) of
        (Some centroid_a, Some centroid_b) \<Rightarrow>
          let count_a = get_count m from_tid 0;
              count_b = get_count m to_tid 0
          in if count_a + count_b > 1000 then m
             else
               let blended = map (\<lambda>(ca, cb). (ca * real_of_int count_a + cb * real_of_int count_b)
                                     / real_of_int (max 1 (count_a + count_b))) (zip centroid_a centroid_b);
                   merged_dists = dq_extend 1024 (dq_extend 1024 [] (get_dists m to_tid)) (get_dists m from_tid);
                   m1 = m\<lparr>
                     territory_centroids :=
                       AList.delete from_tid (AList.update to_tid (normalize_embedding blended) (territory_centroids m)),
                     territory_member_dists :=
                       AList.delete from_tid (AList.update to_tid merged_dists (territory_member_dists m)),
                     mem := map (\<lambda>(k, ms). (k, if territory_id ms = Some from_tid
                                                 then ms\<lparr>territory_id := Some to_tid\<rparr> else ms)) (mem m),
                     territory_counts :=
                       AList.delete from_tid (AList.update to_tid (count_a + count_b) (territory_counts m)),
                     merge_counter := merge_counter m + 1\<rparr>
               in record_event ''territory_merge'' [(''from'', JInt from_tid), (''to'', JInt to_tid)] m1
      | _ \<Rightarrow> m)"

text \<open>\<open>itertools.combinations(xs, 2)\<close>.\<close>

fun combinations2 :: "'a list \<Rightarrow> ('a \<times> 'a) list" where
  "combinations2 [] = []"
| "combinations2 (x # xs) = map (Pair x) xs @ combinations2 xs"

text \<open>
  The loop of \<open>maybe_diffuse\<close>. It ends at the first merge (\<open>break\<close>) or when
  \<open>cosine_distance\<close> raises; each merge candidate draws once from the generator.
\<close>

fun diffuse_loop :: "pylib \<Rightarrow> (int \<times> int) list \<Rightarrow> manager \<Rightarrow> error option \<times> manager" where
  "diffuse_loop L [] m = (None, m)"
| "diffuse_loop L ((a, b) # rest) m =
     (if a = b then diffuse_loop L rest m
      else case (map_of (territory_centroids m) a, map_of (territory_centroids m) b) of
        (Some centroid_a, Some centroid_b) \<Rightarrow>
          (case cosine_distance centroid_a centroid_b of
             Inl e \<Rightarrow> (Some e, m)
           | Inr distance \<Rightarrow>
               let tau = min (territory_tau m) 0.6;
                   max_radius = max (territory_radius m a) (territory_radius m b)
               in if distance \<le> 0.5 * territory_tau m \<and> max_radius \<le> 1.25 * tau
                  then
                    if get_count m a 0 + get_count m b 0 \<ge> 500 then diffuse_loop L rest m
                    else
                      let draw = rng_random L (rng m);
                          m1 = m\<lparr>rng := snd draw\<rparr>
                      in if diffusion_kappa (cfg m) < fst draw then diffuse_loop L rest m1
                         else if get_count m1 a 0 \<le> get_count m1 b 0
                           then (None, merge_territories m1 a b)
                           else (None, merge_territories m1 b a)
                  else diffuse_loop L rest m)
      | _ \<Rightarrow> diffuse_loop L rest m)"

definition maybe_diffuse :: "pylib \<Rightarrow> manager \<Rightarrow> error option \<times> manager" where
  "maybe_diffuse L m =
     (if diffusion_interval (cfg m) \<le> 0 then (None, m)
      else if tick m mod diffusion_interval (cfg m) \<noteq> 0 then (None, m)
      else diffuse_loop L (combinations2 (map fst (territory_centroids m))) m)"

text \<open>
  The loop of \<open>maybe_split_territory\<close> over the candidates: each is moved to the new
  territory, and the embeddings that are present and non-empty are summed.
\<close>

fun split_loop ::
  "int \<Rightarrow> (string \<times> memory_state) list \<Rightarrow> real list option \<Rightarrow> int \<Rightarrow> manager
     \<Rightarrow> real list option \<times> int \<times> manager" where
  "split_loop new_tid [] centroid_sum new_count m = (centroid_sum, new_count, m)"
| "split_loop new_tid ((k, st) # rest) centroid_sum new_count m =
     (let m1 = m\<lparr>mem := AList.map_entry k (\<lambda>s. s\<lparr>territory_id := Some new_tid\<rparr>) (mem m)\<rparr>;
          csum = (case embedding st of
                    None \<Rightarrow> centroid_sum
                  | Some e \<Rightarrow>
                      if e = [] then centroid_sum
                      else let base = (case centroid_sum of None \<Rightarrow> replicate (length e) 0 | Some c \<Rightarrow> c)
                           in Some (map (\<lambda>(a, b). a + b) (zip base e)))
      in split_loop new_tid rest csum (new_count + 1) m1)"

text \<open>
  \<open>maybe_split_territory(manager, ms)\<close>; \<open>ms\<close> is the trace held under the key \<open>mid\<close>.
  \<open>members\<close> and \<open>candidates\<close> are lists of traces in the order of \<open>_mem\<close>, each with its key.
\<close>

definition split_members :: "manager \<Rightarrow> int \<Rightarrow> (string \<times> memory_state) list" where
  "split_members m tid = filter (\<lambda>(k, st). territory_id st = Some tid) (mem m)"

definition split_median_novelty :: "(string \<times> memory_state) list \<Rightarrow> real" where
  "split_median_novelty members =
     (let novelties = sort (map (\<lambda>(k, st). novelty st) members)
      in novelties ! (length novelties div 2))"

definition split_candidates :: "(string \<times> memory_state) list \<Rightarrow> (string \<times> memory_state) list" where
  "split_candidates members =
     filter (\<lambda>(k, st). novelty st > split_median_novelty members \<and> boredom st < 0.7) members"

definition maybe_split_territory :: "pylib \<Rightarrow> manager \<Rightarrow> string \<Rightarrow> manager" where
  "maybe_split_territory L m mid =
     (case map_of (mem m) mid of
        None \<Rightarrow> m
      | Some ms \<Rightarrow>
         (case territory_id ms of
            None \<Rightarrow> m
          | Some tid \<Rightarrow>
              let members = split_members m tid
              in if length members < 6 then m
                 else
                   let candidates = split_candidates members
                   in if length candidates < 2 \<or> length candidates = length members then m
                      else
                        let seed_embedding = (case embedding (snd (hd candidates)) of None \<Rightarrow> [] | Some e \<Rightarrow> e);
                            created = create_territory L m seed_embedding (ms_text ms);
                            new_tid = fst created;
                            looped = split_loop new_tid candidates None 0 (snd created);
                            centroid_sum = fst looped;
                            new_count = fst (snd looped);
                            m2 = snd (snd looped);
                            m3 = (case centroid_sum of
                                    None \<Rightarrow> m2
                                  | Some c \<Rightarrow>
                                      if c = [] then m2
                                      else m2\<lparr>territory_centroids :=
                                             AList.update new_tid
                                               (normalize_embedding (map (\<lambda>v. v / real_of_int (max 1 new_count)) c))
                                               (territory_centroids m2)\<rparr>);
                            m4 = m3\<lparr>territory_counts := AList.update new_tid new_count (territory_counts m3)\<rparr>;
                            m5 = m4\<lparr>territory_counts :=
                                     AList.update tid (max 0 (get_count m4 tid (int (length members)) - new_count))
                                       (territory_counts m4),
                                   split_counter := split_counter m4 + 1\<rparr>
                        in record_event ''territory_split''
                             [(''from'', JInt tid), (''to'', JInt new_tid), (''count'', JInt new_count)] m5))"

definition record_member_distance :: "manager \<Rightarrow> string \<Rightarrow> real \<Rightarrow> error + manager" where
  "record_member_distance m mid sim =
     (case map_of (mem m) mid of
        None \<Rightarrow> Inr m
      | Some ms \<Rightarrow>
         (case (embedding ms, territory_id ms) of
            (Some e, Some tid) \<Rightarrow>
              (case map_of (territory_centroids m) tid of
                 None \<Rightarrow> Inr m
               | Some centroid \<Rightarrow>
                   let distance = max 0 (1 - sim)
                   in case map_of (territory_member_dists m) tid of
                        None \<Rightarrow> Inl (KeyError (str_of_int tid))
                      | Some dists \<Rightarrow>
                          Inr (record_nn_distance
                                 (m\<lparr>territory_member_dists :=
                                      AList.update tid (dq_append 1024 dists distance) (territory_member_dists m)\<rparr>)
                                 distance))
          | _ \<Rightarrow> Inr m))"

definition pair_step :: "manager \<Rightarrow> int \<times> int \<Rightarrow> manager" where
  "pair_step m ab =
     (let pair = (min (fst ab) (snd ab), max (fst ab) (snd ab));
          dq = (case map_of (pair_churn m) pair of None \<Rightarrow> [] | Some d \<Rightarrow> d)
      in m\<lparr>pair_churn := AList.update pair
              (dq_append (nat (exploration_churn_window (cfg m))) dq (tick m)) (pair_churn m),
            pair_last := AList.update pair (tick m) (pair_last m)\<rparr>)"

text \<open>\<open>update_pair_metrics(manager, states)\<close>, the states given by their keys.\<close>

definition update_pair_metrics :: "manager \<Rightarrow> string list \<Rightarrow> manager" where
  "update_pair_metrics m states =
     (let ids = List.map_filter (\<lambda>k. case map_of (mem m) k of None \<Rightarrow> None | Some ms \<Rightarrow> territory_id ms) states
      in foldl pair_step m (combinations2 ids))"

definition estimate_novelty :: "string \<Rightarrow> real" where
  "estimate_novelty txt =
     (if txt = [] then 0 else clamp01 (real (length (remdups txt)) / 64))"


section \<open>\<open>manager.py\<close>: the operations\<close>

subsection \<open>Internal helpers\<close>

definition composite_score :: "manager \<Rightarrow> memory_state \<Rightarrow> real" where
  "composite_score m ms =
     (let dt = max 0 (tick m - last_touch_tick ms);
          recency_hl = max 1 (recency_half_life_ticks (cfg m));
          recency = exp (- ln 2 * real_of_int dt / real_of_int recency_hl);
          score = confidence ms * (1 - boredom_weight (cfg m)) + novelty ms * boredom_weight (cfg m)
      in max 0 (score + (heat ms * 0.1 + recency)))"

definition remove_memory :: "manager \<Rightarrow> string \<Rightarrow> manager" where
  "remove_memory m memory_id =
     (case map_of (mem m) memory_id of
        None \<Rightarrow> m
      | Some ms \<Rightarrow>
          let m1 = m\<lparr>mem := AList.delete memory_id (mem m)\<rparr>;
              m2 = (case territory_id ms of
                      None \<Rightarrow> m1
                    | Some tid \<Rightarrow>
                        let count = get_count m1 tid 0 - 1
                        in if count \<le> 0
                           then m1\<lparr>territory_counts := AList.delete tid (territory_counts m1),
                                   territory_centroids := AList.delete tid (territory_centroids m1),
                                   territory_member_dists := AList.delete tid (territory_member_dists m1)\<rparr>
                           else m1\<lparr>territory_counts := AList.update tid count (territory_counts m1)\<rparr>)
          in record_event ''evict'' [(''id'', JString memory_id)] m2)"

definition decay_trace :: "real \<Rightarrow> memory_state \<Rightarrow> memory_state" where
  "decay_trace decay_factor ms =
     clamp_ranges (ms\<lparr>heat := heat ms * decay_factor, ttl := max 0 (ttl ms - 1),
                       inhibition := inhibition ms * 0.98\<rparr>)"

definition evictable :: "memory_state \<Rightarrow> bool" where
  "evictable ms \<longleftrightarrow> ttl ms \<le> 0 \<and> confidence ms < 0.05 \<and> mass ms < 3.0"

definition decay_pass :: "manager \<Rightarrow> manager" where
  "decay_pass m =
     (let decay_factor = 0.5 powr (1 / real_of_int (decay_half_life (cfg m)));
          m1 = m\<lparr>mem := map (\<lambda>(k, ms). (k, decay_trace decay_factor ms)) (mem m)\<rparr>;
          to_remove = map fst (filter (\<lambda>(k, ms). evictable ms) (mem m1))
      in foldl remove_memory m1 to_remove)"

text \<open>
  \<open>_prune_if_needed\<close>. The count \<open>target_drop\<close> is computed in floats and truncated by
  \<open>int(x)\<close>, so the rounding decides it: \<open>clamp_float\<close> converts the ratio with
  \<open>float(value)\<close> and compares it with the floats \<open>0.05\<close> and \<open>0.95\<close>;
  \<open>size * ratio\<close> converts the integer \<open>size\<close> and rounds the product, and subtracting the
  integer \<open>self._capacity\<close> converts it and rounds the difference. The sort is stable
  and its key reads \<open>self._mem[mid]\<close>, which raises \<open>KeyError\<close> for an id that is not stored.
\<close>

definition prune_target_drop :: "manager \<Rightarrow> int" where
  "prune_target_drop m =
     (let size = int (length (mem m));
          ratio = clamp_real (float_round (prune_target_ratio (cfg m))) (float_round 0.05) (float_round 0.95)
      in max 1 (min (size - capacity (cfg m))
                    (trunc (max 1.0 (float_sub (float_mul (float_of_int size) ratio)
                                               (float_of_int (capacity (cfg m))))))))"

definition prune_sampled :: "pylib \<Rightarrow> manager \<Rightarrow> string list" where
  "prune_sampled L m =
     (let candidates = fst (rng_shuffle L (rng m) (map fst (mem m)))
      in take (min (length candidates) (nat (prune_sample (cfg m)))) candidates)"

definition prune_scored :: "pylib \<Rightarrow> manager \<Rightarrow> string list" where
  "prune_scored L m =
     sort_key (\<lambda>mid. composite_score m (the (map_of (mem m) mid))) (prune_sampled L m)"

definition prune_if_needed :: "pylib \<Rightarrow> manager \<Rightarrow> error option \<times> manager" where
  "prune_if_needed L m =
     (if int (length (mem m)) \<le> capacity (cfg m) then (None, m)
      else
        let target_drop = prune_target_drop m;
            m1 = m\<lparr>rng := snd (rng_shuffle L (rng m) (map fst (mem m)))\<rparr>
        in if \<not> list_all (\<lambda>mid. map_of (mem m) mid \<noteq> None) (prune_sampled L m)
           then (Some (KeyError ''memory id''), m1)
           else
             let m2 = foldl remove_memory m1 (take (nat target_drop) (prune_scored L m))
             in (None, record_event ''prune'' [(''count'', JInt target_drop)] m2))"

definition after_operation :: "pylib \<Rightarrow> manager \<Rightarrow> error option \<times> manager" where
  "after_operation L m =
     (let m1 = decay_pass (m\<lparr>tick := tick m + 1\<rparr>)
      in case prune_if_needed L m1 of
           (Some e, m2) \<Rightarrow> (Some e, m2)
         | (None, m2) \<Rightarrow>
            (case maybe_diffuse L m2 of
               (Some e, m3) \<Rightarrow> (Some e, m3)
             | (None, m3) \<Rightarrow> (None, m3\<lparr>exploration_temp := min (exploration_temp m3) 1.0\<rparr>)))"

definition flush_step :: "(string \<times> string) list \<times> manager \<Rightarrow> string \<Rightarrow> (string \<times> string) list \<times> manager" where
  "flush_step acc memory_id =
     (case map_of (mem (snd acc)) memory_id of
        None \<Rightarrow> acc
      | Some ms \<Rightarrow>
          (fst acc @ [(memory_id, ms_text ms)],
           (snd acc)\<lparr>mem := AList.update memory_id (ms\<lparr>pending_condense := False\<rparr>) (mem (snd acc))\<rparr>))"

definition flush_condensation_locked :: "manager \<Rightarrow> (string \<times> string) list \<times> manager" where
  "flush_condensation_locked m =
     (if pending_queue m = [] then ([], m)
      else let r = foldl flush_step ([], m) (pending_queue m)
           in (fst r, (snd r)\<lparr>pending_queue := []\<rparr>))"

definition register_memory ::
  "pylib \<Rightarrow> manager \<Rightarrow> string \<Rightarrow> string \<Rightarrow> real list option \<Rightarrow> json \<Rightarrow> error + manager" where
  "register_memory L m memory_id txt emb meta =
     bindE (assign_territory L m txt emb) (\<lambda>assigned.
       let tid = fst assigned;
           m1 = snd assigned;
           state = clamp_ranges
             \<lparr>ms_text = txt, embedding = emb, metadata = meta, territory_id = Some tid,
              ttl = base_ttl (cfg m1), last_touch_tick = tick m1, use_count = 0, mass = 1.0,
              heat = 0.0, confidence = 0.35, novelty = estimate_novelty txt, boredom = 0.0,
              inhibition = 0.0, frontier_hits = 0, pending_condense = False\<rparr>;
           m2 = m1\<lparr>mem := AList.update memory_id state (mem m1),
                   territory_counts := AList.update tid (get_count m1 tid 0 + 1) (territory_counts m1)\<rparr>;
           m3 = (if map_of (territory_member_dists m2) tid = None
                 then m2\<lparr>territory_member_dists := AList.update tid [] (territory_member_dists m2)\<rparr>
                 else m2)
       in Inr (record_event ''register'' [(''id'', JString memory_id), (''territory'', JInt tid)] m3))"

definition boredom_increment :: "manager \<Rightarrow> memory_state \<Rightarrow> real" where
  "boredom_increment m ms =
     (if use_count ms \<le> habituation_start (cfg m) then 0.02
      else let denominator = max (habituation_scale (cfg m)) (real_of_int (use_count ms))
           in min 0.2 (real_of_int (use_count ms) / denominator * 0.05))"

definition reinforce_trace :: "manager \<Rightarrow> real \<Rightarrow> real \<Rightarrow> int \<Rightarrow> memory_state \<Rightarrow> memory_state" where
  "reinforce_trace m sim heat_gain ttl_boost ms =
     (let boost = max ttl_boost 0;
          ms1 = ms\<lparr>last_touch_tick := tick m, use_count := use_count ms + 1,
                   heat := heat ms + heat_gain, mass := mass ms + sim * (1.0 + heat_gain)\<rparr>;
          ms2 = ms1\<lparr>boredom := clamp01 (boredom ms1 + boredom_increment m ms1)\<rparr>;
          ms3 = ms2\<lparr>confidence := clamp01 (confidence ms2 + (1.0 - confidence ms2) * sim * 0.3)\<rparr>;
          ms4 = ms3\<lparr>novelty := clamp01 (novelty ms3 * 0.9 + (1.0 - sim) * 0.1)\<rparr>
      in clamp_ranges (ms4\<lparr>ttl := max (ttl ms4) boost\<rparr>))"

text \<open>
  \<open>_apply_reinforcement(ms, sim, heat_gain, ttl_boost)\<close> for the trace under key \<open>mid\<close>.
  \<open>record_member_distance\<close> can raise after the trace has been updated, so the result
  carries the state on both paths.
\<close>

definition apply_reinforcement ::
  "manager \<Rightarrow> string \<Rightarrow> real \<Rightarrow> real \<Rightarrow> int \<Rightarrow> error option \<times> manager" where
  "apply_reinforcement m mid sim heat_gain ttl_boost =
     (let m1 = m\<lparr>mem := AList.map_entry mid (reinforce_trace m sim heat_gain ttl_boost) (mem m)\<rparr>
      in case record_member_distance m1 mid sim of
           Inl e \<Rightarrow> (Some e, m1)
         | Inr m2 \<Rightarrow> (None, m2))"

definition frontier_entry :: "memory_state \<Rightarrow> (string \<times> json) list" where
  "frontier_entry ms =
     [(''territory'', case territory_id ms of None \<Rightarrow> JNull | Some t \<Rightarrow> JInt t),
      (''hits'', JInt (frontier_hits ms)),
      (''novelty'', JFloat (novelty ms))]"

definition frontier_accounting :: "pylib \<Rightarrow> manager \<Rightarrow> string \<Rightarrow> manager" where
  "frontier_accounting L m mid =
     (case map_of (mem m) mid of
        None \<Rightarrow> m
      | Some ms \<Rightarrow>
          if novelty ms \<ge> frontier_novelty_threshold (cfg m) \<and> boredom ms < 0.5
          then
            let ms1 = ms\<lparr>frontier_hits := frontier_hits ms + 1\<rparr>;
                m1 = m\<lparr>mem := AList.update mid ms1 (mem m),
                        frontier := AList.update mid (frontier_entry ms1) (frontier m)\<rparr>
            in if frontier_hits ms1 \<ge> frontier_patience (cfg m)
               then let m2 = maybe_split_territory L m1 mid
                    in m2\<lparr>mem := AList.map_entry mid (\<lambda>s. s\<lparr>frontier_hits := 0\<rparr>) (mem m2)\<rparr>
               else m1
          else m\<lparr>mem := AList.update mid (ms\<lparr>frontier_hits := 0\<rparr>) (mem m),
                 frontier := AList.delete mid (frontier m)\<rparr>)"

definition condensation_check :: "manager \<Rightarrow> string \<Rightarrow> manager" where
  "condensation_check m mid =
     (case map_of (mem m) mid of
        None \<Rightarrow> m
      | Some ms \<Rightarrow>
          if boredom ms \<ge> condensation_boredom (cfg m)
             \<and> confidence ms \<ge> condensation_conf (cfg m)
             \<and> mass ms \<ge> condensation_mass (cfg m)
          then
            if mid \<notin> set (pending_queue m)
            then m\<lparr>pending_queue := pending_queue m @ [mid],
                   mem := AList.update mid (ms\<lparr>pending_condense := True\<rparr>) (mem m)\<rparr>
            else m
          else m)"

text \<open>The second loop of a reinforcement row, over \<open>zip(states, sims)\<close>.\<close>

fun reinforce_states ::
  "pylib \<Rightarrow> real \<Rightarrow> int \<Rightarrow> (string \<times> real) list \<Rightarrow> manager \<Rightarrow> error option \<times> manager" where
  "reinforce_states L heat_gain ttl_boost [] m = (None, m)"
| "reinforce_states L heat_gain ttl_boost ((mid, sim) # rest) m =
     (case apply_reinforcement m mid sim heat_gain ttl_boost of
        (Some e, m1) \<Rightarrow> (Some e, m1)
      | (None, m1) \<Rightarrow>
          reinforce_states L heat_gain ttl_boost rest
            (condensation_check (frontier_accounting L m1 mid) mid))"

definition resolve_row :: "manager \<Rightarrow> string list \<Rightarrow> real list \<Rightarrow> (string \<times> real) list" where
  "resolve_row m ids_row dist_row =
     map (\<lambda>(mid, distance). (mid, max 0.0 (1.0 - distance)))
         (filter (\<lambda>(mid, distance). map_of (mem m) mid \<noteq> None) (zip ids_row dist_row))"

definition inhibit :: "manager \<Rightarrow> string \<Rightarrow> manager" where
  "inhibit m mid = m\<lparr>mem := AList.map_entry mid (\<lambda>ms. ms\<lparr>inhibition := min (inhibition ms + 0.05) 1.0\<rparr>) (mem m)\<rparr>"

definition reinforce_row ::
  "pylib \<Rightarrow> real \<Rightarrow> int \<Rightarrow> string list \<Rightarrow> real list \<Rightarrow> manager \<Rightarrow> error option \<times> manager" where
  "reinforce_row L heat_gain ttl_boost ids_row dist_row m =
     (if length ids_row \<noteq> length dist_row then (Some (ValueError ''ids_row and dist_row must align''), m)
      else
        let resolved = resolve_row m ids_row dist_row;
            states = map fst resolved;
            sims = map snd resolved
        in if states = [] then (None, m)
           else
             let m1 = foldl inhibit m states;
                 m2 = update_pair_metrics m1 states;
                 avg_sim = sum_list sims / real (length sims);
                 m3 = m2\<lparr>reward_ema := (1.0 - 0.05) * reward_ema m2 + 0.05 * avg_sim\<rparr>
             in case reinforce_states L heat_gain ttl_boost resolved m3 of
                  (Some e, m4) \<Rightarrow> (Some e, m4)
                | (None, m4) \<Rightarrow> (None, record_event ''reinforce'' [(''count'', JInt (int (length states)))] m4))"

fun reinforce_rows ::
  "pylib \<Rightarrow> real \<Rightarrow> int \<Rightarrow> (string list \<times> real list) list \<Rightarrow> manager \<Rightarrow> error option \<times> manager" where
  "reinforce_rows L heat_gain ttl_boost [] m = (None, m)"
| "reinforce_rows L heat_gain ttl_boost ((ids_row, dist_row) # rest) m =
     (case reinforce_row L heat_gain ttl_boost ids_row dist_row m of
        (Some e, m1) \<Rightarrow> (Some e, m1)
      | (None, m1) \<Rightarrow> reinforce_rows L heat_gain ttl_boost rest m1)"

text \<open>The loop of \<open>register_chunks\<close>; a row is an id with its text, embedding and metadata.\<close>

fun register_loop ::
  "pylib \<Rightarrow> (string \<times> string \<times> real list option \<times> json) list \<Rightarrow> bool \<Rightarrow> manager
     \<Rightarrow> error option \<times> bool \<times> manager" where
  "register_loop L [] added m = (None, added, m)"
| "register_loop L ((memory_id, txt, emb, meta) # rest) added m =
     (if map_of (mem m) memory_id \<noteq> None then register_loop L rest added m
      else case register_memory L m memory_id txt (map_option normalize_embedding emb) meta of
             Inl e \<Rightarrow> (Some e, added, m)
           | Inr m1 \<Rightarrow> register_loop L rest True m1)"

text \<open>The part of \<open>register_chunks\<close> that runs under the lock.\<close>

definition register_locked ::
  "pylib \<Rightarrow> (string \<times> string \<times> real list option \<times> json) list \<Rightarrow> manager
     \<Rightarrow> error option \<times> bool \<times> (string \<times> string) list \<times> manager" where
  "register_locked L rows m =
     (case register_loop L rows False m of
        (Some e, added, m1) \<Rightarrow> (Some e, added, [], m1)
      | (None, added, m1) \<Rightarrow>
          if added
          then let flushed = flush_condensation_locked m1
               in case after_operation L (snd flushed) of
                    (err, m2) \<Rightarrow> (err, added, fst flushed, m2)
          else (None, added, [], m1))"


subsection \<open>The condensation queue is untouched by registration and maintenance\<close>

text \<open>
  \<open>register_chunks\<close> and \<open>_run_condense_callback\<close> call each other. The recursion ends
  because the callback only runs on a non-empty drained list, and the nested
  \<open>register_chunks\<close> starts from the queue its caller has just emptied. The lemmas below
  are what the termination proof needs.
\<close>

lemma pq_record_event [simp]: "pending_queue (record_event t p m) = pending_queue m"
  by (simp add: record_event_def)

lemma pq_record_nn_distance [simp]: "pending_queue (record_nn_distance m d) = pending_queue m"
  by (simp add: record_nn_distance_def Let_def)

lemma pq_create_territory [simp]: "pending_queue (snd (create_territory L m e t)) = pending_queue m"
  by (simp add: create_territory_def Let_def)

lemma pq_deterministic_territory [simp]: "pending_queue (snd (deterministic_territory L m t)) = pending_queue m"
  by (simp add: deterministic_territory_def Let_def split: option.splits)

lemma pq_update_centroid [simp]: "pending_queue (update_centroid m tid e) = pending_queue m"
  by (simp add: update_centroid_def Let_def split: option.splits)

lemma pq_assign_territory: "assign_territory L m t e = Inr r \<Longrightarrow> pending_queue (snd r) = pending_queue m"
  by (auto simp: assign_territory_def Let_def bindE_def split: option.splits sum.splits if_splits)

lemma pq_merge_territories [simp]: "pending_queue (merge_territories m a b) = pending_queue m"
  by (simp add: merge_territories_def Let_def split: option.splits)

lemma pq_diffuse_loop [simp]: "pending_queue (snd (diffuse_loop L ps m)) = pending_queue m"
  by (induction L ps m rule: diffuse_loop.induct) (auto simp: Let_def split: option.splits sum.splits)

lemma pq_maybe_diffuse [simp]: "pending_queue (snd (maybe_diffuse L m)) = pending_queue m"
  by (simp add: maybe_diffuse_def)

lemma pq_remove_memory [simp]: "pending_queue (remove_memory m k) = pending_queue m"
  by (simp add: remove_memory_def Let_def split: option.splits)

lemma pq_foldl_remove_memory [simp]: "pending_queue (foldl remove_memory m ks) = pending_queue m"
  by (induction ks arbitrary: m) simp_all

lemma pq_decay_pass [simp]: "pending_queue (decay_pass m) = pending_queue m"
  by (simp add: decay_pass_def Let_def)

lemma pq_prune_if_needed [simp]: "pending_queue (snd (prune_if_needed L m)) = pending_queue m"
  by (simp add: prune_if_needed_def Let_def)

lemma pq_after_operation [simp]: "pending_queue (snd (after_operation L m)) = pending_queue m"
proof -
  obtain e2 m2 where p: "prune_if_needed L (decay_pass (m\<lparr>tick := tick m + 1\<rparr>)) = (e2, m2)"
    by (cases "prune_if_needed L (decay_pass (m\<lparr>tick := tick m + 1\<rparr>))")
  obtain e3 m3 where d: "maybe_diffuse L m2 = (e3, m3)"
    by (cases "maybe_diffuse L m2")
  have q2: "pending_queue m2 = pending_queue m"
    using pq_prune_if_needed [of L "decay_pass (m\<lparr>tick := tick m + 1\<rparr>)"] p by simp
  have q3: "pending_queue m3 = pending_queue m2"
    using pq_maybe_diffuse [of L m2] d by simp
  show ?thesis
    using p d q2 q3 by (simp add: after_operation_def Let_def split: option.splits)
qed

lemma pq_register_memory: "register_memory L m k t e meta = Inr m' \<Longrightarrow> pending_queue m' = pending_queue m"
  by (auto simp: register_memory_def bindE_def Let_def split: sum.splits dest: pq_assign_territory)

lemma pq_register_loop: "pending_queue (snd (snd (register_loop L rows added m))) = pending_queue m"
  by (induction L rows added m rule: register_loop.induct)
     (auto split: sum.splits dest: pq_register_memory)

lemma pq_flush [simp]: "pending_queue (snd (flush_condensation_locked m)) = []"
  by (simp add: flush_condensation_locked_def Let_def)

lemma flush_empty: "pending_queue m = [] \<Longrightarrow> fst (flush_condensation_locked m) = []"
  by (simp add: flush_condensation_locked_def)

lemma register_locked_queue:
  assumes "fst (register_locked L rows m) = None" and "fst (snd (register_locked L rows m))"
  shows "pending_queue (snd (snd (snd (register_locked L rows m)))) = []"
    and "pending_queue m = [] \<Longrightarrow> fst (snd (snd (register_locked L rows m))) = []"
proof -
  obtain e added m1 where l: "register_loop L rows False m = (e, added, m1)"
    by (cases "register_loop L rows False m")
  have q1: "pending_queue m1 = pending_queue m"
    using pq_register_loop [of L rows False m] l by simp
  obtain e2 m2 where a: "after_operation L (snd (flush_condensation_locked m1)) = (e2, m2)"
    by (cases "after_operation L (snd (flush_condensation_locked m1))")
  have q2: "pending_queue m2 = []"
    using pq_after_operation [of L "snd (flush_condensation_locked m1)"] a by simp
  from assms l a have ea: "e = None" "added"
    by (auto simp: register_locked_def Let_def split: option.splits if_splits)
  show "pending_queue (snd (snd (snd (register_locked L rows m)))) = []"
    using l a ea q2 by (simp add: register_locked_def Let_def)
  show "pending_queue m = [] \<Longrightarrow> fst (snd (snd (register_locked L rows m))) = []"
    using l a ea q1 by (simp add: register_locked_def Let_def flush_empty)
qed

subsection \<open>Public API\<close>

function register_chunks ::
  "pylib \<Rightarrow> string list \<Rightarrow> string list \<Rightarrow> real list option list option \<Rightarrow> json list option
     \<Rightarrow> manager \<Rightarrow> error option \<times> manager"
and run_condense_callback ::
  "pylib \<Rightarrow> (string \<times> string) list \<Rightarrow> manager \<Rightarrow> error option \<times> manager" where
  "register_chunks L ids raw_texts embeddings metas m =
     (if length ids \<noteq> length raw_texts
        then (Some (ValueError ''ids and raw_texts must be correlated pairwise''), m)
      else if embeddings \<noteq> None \<and> length (the embeddings) \<noteq> length ids
        then (Some (ValueError ''embeddings length must match ids''), m)
      else if metas \<noteq> None \<and> length (the metas) \<noteq> length ids
        then (Some (ValueError ''metadata length must match ids''), m)
      else
        let embedding_list = (case embeddings of None \<Rightarrow> replicate (length ids) None | Some es \<Rightarrow> es);
            metadata_list = (case metas of None \<Rightarrow> replicate (length ids) JNull | Some ms \<Rightarrow> ms);
            locked = register_locked L (zip ids (zip raw_texts (zip embedding_list metadata_list))) m
        in if fst locked \<noteq> None then (fst locked, snd (snd (snd locked)))
           else if fst (snd locked)
             then run_condense_callback L (fst (snd (snd locked))) (snd (snd (snd locked)))
             else (None, snd (snd (snd locked))))"
| "run_condense_callback L pending m =
     (if pending = [] \<or> condense_callback m = None then (None, m)
      else case the (condense_callback m) (map snd pending) of
             CbNone \<Rightarrow> (None, m)
           | CbRaises \<Rightarrow> (Some CallbackError, m)
           | CbSummary summary_id txt \<Rightarrow> register_chunks L [summary_id] [txt] None None m)"
  by pat_completeness auto

termination
  apply (relation "measure (\<lambda>x. case x of
           Inl (L, ids, raw_texts, embeddings, metas, m) \<Rightarrow> (if pending_queue m = [] then 1 else 3)
         | Inr (L, pending, m) \<Rightarrow> (if pending = [] then 0 else if pending_queue m = [] then 2 else 4))")
  subgoal by simp
  subgoal for L ids raw_texts embeddings metas m embedding_list metadata_list locked
    using register_locked_queue [of L "zip ids (zip raw_texts (zip embedding_list metadata_list))" m]
    by (auto split: prod.splits)
  subgoal by auto
  done

declare register_chunks.simps [simp del] run_condense_callback.simps [simp del]

definition reinforce ::
  "pylib \<Rightarrow> string list list option \<Rightarrow> real list list option \<Rightarrow> real \<Rightarrow> int \<Rightarrow> manager
     \<Rightarrow> error option \<times> manager" where
  "reinforce L ids_rows dist_rows heat_gain ttl_boost m =
     (case (ids_rows, dist_rows) of
        (Some ir, Some dr) \<Rightarrow>
          if length ir \<noteq> length dr then (Some (ValueError ''ids and distances rows must align''), m)
          else (case reinforce_rows L heat_gain ttl_boost (zip ir dr) m of
                  (Some e, m1) \<Rightarrow> (Some e, m1)
                | (None, m1) \<Rightarrow>
                    let flushed = flush_condensation_locked m1
                    in case after_operation L (snd flushed) of
                         (Some e, m2) \<Rightarrow> (Some e, m2)
                       | (None, m2) \<Rightarrow> run_condense_callback L (fst flushed) m2)
      | _ \<Rightarrow> (Some (ValueError ''results must contain ids and distances''), m))"

definition degrade_trace :: "int \<Rightarrow> memory_state \<Rightarrow> memory_state" where
  "degrade_trace ttl_floor ms =
     clamp_ranges (ms\<lparr>ttl := min (ttl ms) ttl_floor, boredom := min 1.0 (boredom ms + 0.1)\<rparr>)"

fun degrade_loop :: "int \<Rightarrow> string list \<Rightarrow> int \<Rightarrow> manager \<Rightarrow> int \<times> manager" where
  "degrade_loop ttl_floor [] count m = (count, m)"
| "degrade_loop ttl_floor (memory_id # rest) count m =
     (case map_of (mem m) memory_id of
        None \<Rightarrow> degrade_loop ttl_floor rest count m
      | Some ms \<Rightarrow>
          degrade_loop ttl_floor rest (count + 1)
            (m\<lparr>mem := AList.update memory_id (degrade_trace ttl_floor ms) (mem m)\<rparr>))"

definition degrade :: "string list \<Rightarrow> int \<Rightarrow> manager \<Rightarrow> error option \<times> manager" where
  "degrade ids ttl_floor m =
     (case require_int (JInt ttl_floor) 1 ''ttl_floor'' of
        Inl e \<Rightarrow> (Some e, m)
      | Inr fl \<Rightarrow>
          let looped = degrade_loop fl ids 0 m
          in (None, if fst looped \<noteq> 0
                    then record_event ''degrade'' [(''count'', JInt (fst looped))] (snd looped)
                    else snd looped))"

definition engram_member :: "manager \<Rightarrow> string \<Rightarrow> manager" where
  "engram_member m mid =
     m\<lparr>mem := AList.map_entry mid
               (\<lambda>ms. clamp_ranges (ms\<lparr>boredom := min 1.0 (boredom ms + 0.05),
                                        inhibition := min 1.0 (inhibition ms + 0.05)\<rparr>))
               (mem m)\<rparr>"

definition register_engram :: "string \<Rightarrow> string list \<Rightarrow> string \<Rightarrow> manager \<Rightarrow> bool \<times> manager" where
  "register_engram summary_id member_ids txt m =
     (let members = filter (\<lambda>mid. map_of (mem m) mid \<noteq> None) member_ids
      in if length members < 2 then (False, m)
         else
           let m1 = m\<lparr>engrams := AList.update summary_id members (engrams m)\<rparr>;
               m2 = foldl engram_member m1 members
           in (True, record_event ''engram''
                       [(''id'', JString summary_id), (''members'', JInt (int (length members)))] m2))"

definition top :: "int \<Rightarrow> manager \<Rightarrow> (string \<times> real) list \<times> manager" where
  "top k m =
     (let k1 = (if k \<le> 0 then 1 else k);
          k2 = (if k1 > 100 then 100 else k1);
          scored = map (\<lambda>(mid, ms). (mid, composite_score m ms)) (mem m)
      in (take (nat k2) (rev (sort_key snd (rev scored))), m))"

definition composite_score_for :: "string \<Rightarrow> manager \<Rightarrow> real option \<times> manager" where
  "composite_score_for memory_id m =
     (case map_of (mem m) memory_id of
        None \<Rightarrow> (None, m)
      | Some ms \<Rightarrow> (Some (composite_score m ms), m))"

definition exploratory_weight :: "string \<Rightarrow> manager \<Rightarrow> real \<times> manager" where
  "exploratory_weight memory_id m =
     (case map_of (mem m) memory_id of
        None \<Rightarrow> (0.0, m)
      | Some ms \<Rightarrow> (clamp01 (novelty ms * (1.0 - boredom ms)), m))"

definition stats :: "manager \<Rightarrow> (string \<times> real) list \<times> manager" where
  "stats m =
     (if mem m = []
      then ([(''count'', 0.0), (''avg_confidence'', 0.0), (''avg_novelty'', 0.0),
             (''avg_boredom'', 0.0), (''avg_mass'', 0.0)], m)
      else
        let count = real (length (mem m))
        in ([(''count'', count),
             (''avg_confidence'', sum_list (map (\<lambda>(k, ms). confidence ms) (mem m)) / count),
             (''avg_novelty'', sum_list (map (\<lambda>(k, ms). novelty ms) (mem m)) / count),
             (''avg_boredom'', sum_list (map (\<lambda>(k, ms). boredom ms) (mem m)) / count),
             (''avg_mass'', sum_list (map (\<lambda>(k, ms). mass ms) (mem m)) / count)], m))"

definition consume_events :: "manager \<Rightarrow> (string \<times> json) list list \<times> manager" where
  "consume_events m = (events m, m\<lparr>events := []\<rparr>)"

definition peek_events :: "int \<Rightarrow> manager \<Rightarrow> (string \<times> json) list list \<times> manager" where
  "peek_events limit m = (if limit \<le> 0 then ([], m) else (take (nat limit) (events m), m))"

definition set_condense_callback :: "(string list \<Rightarrow> cb_result) option \<Rightarrow> manager \<Rightarrow> manager" where
  "set_condense_callback callback m = m\<lparr>condense_callback := callback\<rparr>"


section \<open>\<open>persistence.py\<close> and the snapshot format\<close>

text \<open>A dict built by assignments \<open>d[k] = v\<close> in the order given (also a dict comprehension).\<close>

definition dict_of :: "('k \<times> 'v) list \<Rightarrow> ('k \<times> 'v) list" where
  "dict_of kvs = foldl (\<lambda>d kv. AList.update (fst kv) (snd kv) d) [] kvs"

definition ms_to_dict :: "memory_state \<Rightarrow> json" where
  "ms_to_dict ms = JObject
     [(''text'', JString (ms_text ms)),
      (''embedding'', case embedding ms of None \<Rightarrow> JNull | Some e \<Rightarrow> JList (map JFloat e)),
      (''metadata'', metadata ms),
      (''territory_id'', case territory_id ms of None \<Rightarrow> JNull | Some t \<Rightarrow> JInt t),
      (''ttl'', JInt (ttl ms)),
      (''last_touch_tick'', JInt (last_touch_tick ms)),
      (''use_count'', JInt (use_count ms)),
      (''mass'', JFloat (mass ms)),
      (''heat'', JFloat (heat ms)),
      (''confidence'', JFloat (confidence ms)),
      (''novelty'', JFloat (novelty ms)),
      (''boredom'', JFloat (boredom ms)),
      (''inhibition'', JFloat (inhibition ms)),
      (''frontier_hits'', JInt (frontier_hits ms)),
      (''pending_condense'', JBool (pending_condense ms))]"

text \<open>
  The dataclass declares \<open>territory_id\<close> an optional integer and \<open>from_dict\<close> stores what
  the payload holds. The record is typed, so a payload value that is no whole number is
  refused here, where Python would store it as it is.
\<close>

fun territory_of_json :: "json \<Rightarrow> error + int option" where
  "territory_of_json JNull = Inr None"
| "territory_of_json (JInt n) = Inr (Some n)"
| "territory_of_json (JBool b) = Inr (Some (if b then 1 else 0))"
| "territory_of_json (JFloat r) =
     (if real_of_int \<lfloor>r\<rfloor> = r then Inr (Some \<lfloor>r\<rfloor>) else Inl (TypeError ''territory_id is not an integer''))"
| "territory_of_json _ = Inl (TypeError ''territory_id is not an integer'')"

definition float_list :: "pylib \<Rightarrow> json \<Rightarrow> error + real list" where
  "float_list L v = bindE (py_iter v) (mapE (py_float L))"

definition ms_from_dict :: "pylib \<Rightarrow> json \<Rightarrow> error + memory_state" where
  "ms_from_dict L data =
     bindE (py_get data ''embedding'' JNull) (\<lambda>j_embedding.
     bindE (if j_embedding = JNull then Inr None
            else bindE (float_list L j_embedding) (\<lambda>e. Inr (Some e))) (\<lambda>v_embedding.
     bindE (py_get data ''text'' (JString [])) (\<lambda>j_text.
     bindE (py_get data ''metadata'' JNull) (\<lambda>v_metadata.
     bindE (bindE (py_get data ''territory_id'' JNull) territory_of_json) (\<lambda>v_territory.
     bindE (bindE (py_get data ''ttl'' (JInt 0)) py_int) (\<lambda>v_ttl.
     bindE (bindE (py_get data ''last_touch_tick'' (JInt 0)) py_int) (\<lambda>v_touch.
     bindE (bindE (py_get data ''use_count'' (JInt 0)) py_int) (\<lambda>v_use.
     bindE (bindE (py_get data ''mass'' (JFloat 1.0)) (py_float L)) (\<lambda>v_mass.
     bindE (bindE (py_get data ''heat'' (JFloat 0.0)) (py_float L)) (\<lambda>v_heat.
     bindE (bindE (py_get data ''confidence'' (JFloat 0.5)) (py_float L)) (\<lambda>v_conf.
     bindE (bindE (py_get data ''novelty'' (JFloat 0.5)) (py_float L)) (\<lambda>v_nov.
     bindE (bindE (py_get data ''boredom'' (JFloat 0.0)) (py_float L)) (\<lambda>v_bor.
     bindE (bindE (py_get data ''inhibition'' (JFloat 0.0)) (py_float L)) (\<lambda>v_inh.
     bindE (bindE (py_get data ''frontier_hits'' (JInt 0)) py_int) (\<lambda>v_hits.
     bindE (py_get data ''pending_condense'' (JBool False)) (\<lambda>j_pending.
       Inr (clamp_ranges
         \<lparr>ms_text = py_str L j_text, embedding = v_embedding, metadata = v_metadata,
          territory_id = v_territory, ttl = v_ttl, last_touch_tick = v_touch, use_count = v_use,
          mass = v_mass, heat = v_heat, confidence = v_conf, novelty = v_nov, boredom = v_bor,
          inhibition = v_inh, frontier_hits = v_hits,
          pending_condense = py_bool j_pending\<rparr>)))))))))))))))))"

definition config_to_dict :: "config \<Rightarrow> json" where
  "config_to_dict c = JObject
     [(''capacity'', JInt (capacity c)),
      (''base_ttl'', JInt (base_ttl c)),
      (''decay_half_life'', JInt (decay_half_life c)),
      (''prune_sample'', JInt (prune_sample c)),
      (''prune_target_ratio'', JFloat (prune_target_ratio c)),
      (''thread_safe'', JBool (thread_safe c)),
      (''seed'', case seed c of None \<Rightarrow> JNull | Some s \<Rightarrow> JInt s),
      (''recency_half_life_ticks'', JInt (recency_half_life_ticks c)),
      (''habituation_start'', JInt (habituation_start c)),
      (''habituation_scale'', JFloat (habituation_scale c)),
      (''boredom_weight'', JFloat (boredom_weight c)),
      (''frontier_novelty_threshold'', JFloat (frontier_novelty_threshold c)),
      (''frontier_patience'', JInt (frontier_patience c)),
      (''diffusion_interval'', JInt (diffusion_interval c)),
      (''diffusion_kappa'', JFloat (diffusion_kappa c)),
      (''exploration_churn_window'', JInt (exploration_churn_window c)),
      (''condensation_boredom'', JFloat (condensation_boredom c)),
      (''condensation_conf'', JFloat (condensation_conf c)),
      (''condensation_mass'', JFloat (condensation_mass c))]"

definition pair_key :: "int \<times> int \<Rightarrow> string" where
  "pair_key ab = str_of_int (fst ab) @ '':'' @ str_of_int (snd ab)"

definition manager_to_dict :: "manager \<Rightarrow> json" where
  "manager_to_dict m = JObject
     [(''version'', JInt 1),
      (''tick'', JInt (tick m)),
      (''mem'', JObject (dict_of (map (\<lambda>(mid, ms). (mid, ms_to_dict ms)) (mem m)))),
      (''engrams'', JObject (map (\<lambda>(k, members). (k, JList (map JString members))) (engrams m))),
      (''frontier'', JObject (map (\<lambda>(k, info). (k, JObject info)) (frontier m))),
      (''next_territory'', JInt (next_territory_id m)),
      (''reward_ema'', JFloat (reward_ema m)),
      (''pair_churn'', JObject (dict_of (map (\<lambda>(ab, vals). (pair_key ab, JList (map JInt vals))) (pair_churn m)))),
      (''pair_last'', JObject (dict_of (map (\<lambda>(ab, val). (pair_key ab, JInt val)) (pair_last m)))),
      (''territory_centroids'',
         JObject (dict_of (map (\<lambda>(k, v). (str_of_int k, JList (map JFloat v))) (territory_centroids m)))),
      (''territory_counts'',
         JObject (dict_of (map (\<lambda>(k, v). (str_of_int k, JInt v)) (territory_counts m)))),
      (''territory_member_dists'',
         JObject (dict_of (map (\<lambda>(k, v). (str_of_int k, JList (map JFloat v))) (territory_member_dists m)))),
      (''nn_distances'', JList (map JFloat (nn_distances m))),
      (''territory_tau'', JFloat (territory_tau m)),
      (''split_counter'', JInt (split_counter m)),
      (''merge_counter'', JInt (merge_counter m)),
      (''config'', config_to_dict (cfg m))]"

definition to_dict :: "manager \<Rightarrow> json \<times> manager" where
  "to_dict m = (manager_to_dict m, m)"

text \<open>The loops of \<open>populate_manager_from_dict\<close>, one step each.\<close>

definition load_engram :: "pylib \<Rightarrow> manager \<Rightarrow> string \<times> json \<Rightarrow> manager" where
  "load_engram L m kv =
     (case snd kv of
        JList members \<Rightarrow> m\<lparr>engrams := AList.update (fst kv) (map (py_str L) members) (engrams m)\<rparr>
      | _ \<Rightarrow> m)"

definition load_frontier :: "manager \<Rightarrow> string \<times> json \<Rightarrow> manager" where
  "load_frontier m kv =
     (case snd kv of
        JObject info \<Rightarrow> m\<lparr>frontier := AList.update (fst kv) info (frontier m)\<rparr>
      | _ \<Rightarrow> m)"

definition load_trace :: "pylib \<Rightarrow> manager \<Rightarrow> string \<times> json \<Rightarrow> manager" where
  "load_trace L m kv =
     (case ms_from_dict L (snd kv) of
        Inl e \<Rightarrow> m
      | Inr state \<Rightarrow> m\<lparr>mem := AList.update (fst kv) state (mem m)\<rparr>)"

definition load_centroid :: "pylib \<Rightarrow> manager \<Rightarrow> string \<times> json \<Rightarrow> manager" where
  "load_centroid L m kv =
     (case bindE (py_int (JString (fst kv))) (\<lambda>tid. bindE (float_list L (snd kv)) (\<lambda>c. Inr (tid, c))) of
        Inl e \<Rightarrow> m
      | Inr (tid, c) \<Rightarrow> m\<lparr>territory_centroids := AList.update tid c (territory_centroids m)\<rparr>)"

definition load_count :: "manager \<Rightarrow> string \<times> json \<Rightarrow> manager" where
  "load_count m kv =
     (case bindE (py_int (JString (fst kv))) (\<lambda>tid. bindE (py_int (snd kv)) (\<lambda>c. Inr (tid, c))) of
        Inl e \<Rightarrow> m
      | Inr (tid, c) \<Rightarrow> m\<lparr>territory_counts := AList.update tid c (territory_counts m)\<rparr>)"

definition load_member_dists :: "pylib \<Rightarrow> manager \<Rightarrow> string \<times> json \<Rightarrow> manager" where
  "load_member_dists L m kv =
     (case bindE (py_int (JString (fst kv))) (\<lambda>tid. bindE (float_list L (snd kv)) (\<lambda>ds. Inr (tid, ds))) of
        Inl e \<Rightarrow> m
      | Inr (tid, ds) \<Rightarrow>
          m\<lparr>territory_member_dists := AList.update tid (dq_extend 1024 [] ds) (territory_member_dists m)\<rparr>)"

definition load_nn :: "pylib \<Rightarrow> manager \<Rightarrow> json \<Rightarrow> manager" where
  "load_nn L m val =
     (case py_float L val of
        Inl e \<Rightarrow> m
      | Inr d \<Rightarrow> m\<lparr>nn_distances := dq_append 5000 (nn_distances m) d\<rparr>)"

text \<open>\<open>a_str, b_str = key.split(":", 1)\<close>, then \<open>tuple(sorted((int(a_str), int(b_str))))\<close>.\<close>

definition parse_pair :: "string \<Rightarrow> error + int \<times> int" where
  "parse_pair key =
     (if CHR '':'' \<notin> set key then Inl (ValueError ''not enough values to unpack'')
      else bindE (py_int (JString (takeWhile (\<lambda>c. c \<noteq> CHR '':'') key))) (\<lambda>a.
           bindE (py_int (JString (tl (dropWhile (\<lambda>c. c \<noteq> CHR '':'') key)))) (\<lambda>b.
             Inr (min a b, max a b))))"

definition int_list :: "json \<Rightarrow> error + int list" where
  "int_list v = bindE (py_iter v) (mapE py_int)"

definition load_pair_churn :: "manager \<Rightarrow> string \<times> json \<Rightarrow> manager" where
  "load_pair_churn m kv =
     (case bindE (parse_pair (fst kv)) (\<lambda>pair. bindE (int_list (snd kv)) (\<lambda>ticks. Inr (pair, ticks))) of
        Inl e \<Rightarrow> m
      | Inr (pair, ticks) \<Rightarrow>
          m\<lparr>pair_churn := AList.update pair
               (dq_extend (nat (exploration_churn_window (cfg m))) [] ticks) (pair_churn m)\<rparr>)"

definition load_pair_last :: "manager \<Rightarrow> string \<times> json \<Rightarrow> manager" where
  "load_pair_last m kv =
     (case bindE (parse_pair (fst kv)) (\<lambda>pair. bindE (py_int (snd kv)) (\<lambda>val. Inr (pair, val))) of
        Inl e \<Rightarrow> m
      | Inr (pair, val) \<Rightarrow> m\<lparr>pair_last := AList.update pair val (pair_last m)\<rparr>)"

definition populate_manager_from_dict :: "pylib \<Rightarrow> manager \<Rightarrow> json \<Rightarrow> error + manager" where
  "populate_manager_from_dict L manager payload =
     bindE (bindE (py_get payload ''tick'' (JInt 0)) py_int) (\<lambda>v_tick.
     bindE (bindE (py_get payload ''next_territory'' (JInt 10000)) py_int) (\<lambda>v_next.
     bindE (bindE (py_get payload ''reward_ema'' (JFloat 0.0)) (py_float L)) (\<lambda>v_ema.
     bindE (bindE (py_get payload ''territory_tau'' (JFloat 0.3)) (py_float L)) (\<lambda>v_tau.
     bindE (bindE (py_get payload ''split_counter'' (JInt 0)) py_int) (\<lambda>v_split.
     bindE (bindE (py_get payload ''merge_counter'' (JInt 0)) py_int) (\<lambda>v_merge.
     bindE (bindE (py_get payload ''engrams'' (JObject [])) py_items) (\<lambda>engram_items.
     bindE (bindE (py_get payload ''frontier'' (JObject [])) py_items) (\<lambda>frontier_items.
     bindE (py_get payload ''mem'' (JObject [])) (\<lambda>mem_payload.
     bindE (bindE (py_get payload ''territory_centroids'' (JObject [])) py_items) (\<lambda>centroid_items.
     bindE (bindE (py_get payload ''territory_counts'' (JObject [])) py_items) (\<lambda>count_items.
     bindE (bindE (py_get payload ''territory_member_dists'' (JObject [])) py_items) (\<lambda>dists_items.
     bindE (py_get payload ''nn_distances'' (JList [])) (\<lambda>nn_payload.
     bindE (bindE (py_get payload ''pair_churn'' (JObject [])) py_items) (\<lambda>churn_items.
     bindE (bindE (py_get payload ''pair_last'' (JObject [])) py_items) (\<lambda>last_items.
       let m1 = manager\<lparr>tick := v_tick, next_territory_id := v_next, reward_ema := v_ema,
                        territory_tau := clamp_real v_tau 0.05 0.6,
                        split_counter := v_split, merge_counter := v_merge\<rparr>;
           m2 = foldl (load_engram L) (m1\<lparr>engrams := []\<rparr>) engram_items;
           m3 = foldl load_frontier (m2\<lparr>frontier := []\<rparr>) frontier_items;
           m4 = (case mem_payload of JObject traces \<Rightarrow> foldl (load_trace L) m3 traces | _ \<Rightarrow> m3);
           m5 = foldl (load_centroid L) m4 centroid_items;
           m6 = foldl load_count m5 count_items;
           m7 = foldl (load_member_dists L) m6 dists_items;
           m8 = (case nn_payload of
                   JList vals \<Rightarrow> foldl (load_nn L) (m7\<lparr>nn_distances := []\<rparr>) vals
                 | _ \<Rightarrow> m7\<lparr>nn_distances := []\<rparr>);
           m9 = foldl load_pair_churn m8 churn_items
       in Inr (foldl load_pair_last m9 last_items))))))))))))))))"

definition from_dict :: "pylib \<Rightarrow> int \<Rightarrow> json \<Rightarrow> error + manager" where
  "from_dict L entropy payload =
     bindE (bindE (py_get payload ''config'' (JObject [])) sanitize_config) (\<lambda>config.
     bindE (new_manager L entropy config) (\<lambda>manager.
       populate_manager_from_dict L manager payload))"

subsection \<open>Files\<close>

text \<open>
  What \<open>open\<close> and \<open>json.load\<close> make of a path: the file cannot be opened (\<open>OSError\<close>), its
  bytes are not UTF-8, its text is not JSON, or it holds a JSON document. \<open>json.dump\<close>
  followed by \<open>json.load\<close> gives back the value written. A path in \<open>unwritable\<close> cannot
  be opened for writing.
\<close>

datatype file_content = NoFile | NotUtf8 | NotJson | Document json

record filesystem =
  files :: "string \<Rightarrow> file_content"
  unwritable :: "string set"

definition save_json :: "manager \<Rightarrow> string \<Rightarrow> filesystem \<Rightarrow> bool \<times> filesystem" where
  "save_json m path fs =
     (if path \<in> unwritable fs then (False, fs)
      else (True, fs\<lparr>files := (files fs)(path := Document (manager_to_dict m))\<rparr>))"

text \<open>
  \<open>load_json\<close>: \<open>Inr None\<close> is the result \<open>None\<close>, \<open>Inl e\<close> an exception that leaves the call.
\<close>

definition load_json :: "pylib \<Rightarrow> int \<Rightarrow> string \<Rightarrow> filesystem \<Rightarrow> error + manager option" where
  "load_json L entropy path fs =
     (case files fs path of
        NoFile \<Rightarrow> Inr None
      | NotUtf8 \<Rightarrow> Inl (ValueError ''UnicodeDecodeError'')
      | NotJson \<Rightarrow> Inr None
      | Document payload \<Rightarrow>
          bindE (bindE (py_get payload ''config'' (JObject [])) sanitize_config) (\<lambda>config.
          bindE (new_manager L entropy config) (\<lambda>manager.
            case populate_manager_from_dict L manager payload of
              Inl e \<Rightarrow> Inr None
            | Inr loaded \<Rightarrow> Inr (Some loaded))))"

section \<open>Sequences of public calls\<close>

text \<open>
  A public call with its arguments. \<open>apply_op\<close> gives the manager as the call leaves it,
  whether it returns or raises; \<open>run_ops\<close> performs a sequence of calls on one manager.
\<close>

datatype op =
    RegisterChunks "string list" "string list" "real list option list option" "json list option"
  | Reinforce "string list list option" "real list list option" real int
  | Degrade "string list" int
  | RegisterEngram string "string list" string
  | Top int
  | CompositeScoreFor string
  | ExploratoryWeight string
  | Stats
  | ConsumeEvents
  | PeekEvents int
  | SetCondenseCallback "(string list \<Rightarrow> cb_result) option"
  | ToDict

fun apply_op :: "pylib \<Rightarrow> op \<Rightarrow> manager \<Rightarrow> manager" where
  "apply_op L (RegisterChunks ids raw_texts embeddings metas) m =
     snd (register_chunks L ids raw_texts embeddings metas m)"
| "apply_op L (Reinforce ids_rows dist_rows heat_gain ttl_boost) m =
     snd (reinforce L ids_rows dist_rows heat_gain ttl_boost m)"
| "apply_op L (Degrade ids ttl_floor) m = snd (degrade ids ttl_floor m)"
| "apply_op L (RegisterEngram summary_id member_ids txt) m = snd (register_engram summary_id member_ids txt m)"
| "apply_op L (Top k) m = snd (top k m)"
| "apply_op L (CompositeScoreFor memory_id) m = snd (composite_score_for memory_id m)"
| "apply_op L (ExploratoryWeight memory_id) m = snd (exploratory_weight memory_id m)"
| "apply_op L Stats m = snd (stats m)"
| "apply_op L ConsumeEvents m = snd (consume_events m)"
| "apply_op L (PeekEvents limit) m = snd (peek_events limit m)"
| "apply_op L (SetCondenseCallback callback) m = set_condense_callback callback m"
| "apply_op L ToDict m = snd (to_dict m)"

definition run_ops :: "pylib \<Rightarrow> op list \<Rightarrow> manager \<Rightarrow> manager" where
  "run_ops L ops m = foldl (\<lambda>s c. apply_op L c s) m ops"

text \<open>
  The snapshot after constructing a manager with keyword arguments \<open>args\<close> (the
  operating system's entropy being \<open>entropy\<close>) and performing the calls \<open>ops\<close>; the
  constructor's exception if it raises.
\<close>

definition run_snapshot :: "pylib \<Rightarrow> int \<Rightarrow> (string \<times> json) list \<Rightarrow> op list \<Rightarrow> error + json" where
  "run_snapshot L entropy args ops =
     (case new_manager L entropy args of
        Inl e \<Rightarrow> Inl e
      | Inr m \<Rightarrow> Inr (manager_to_dict (run_ops L ops m)))"


section \<open>Invariants\<close>

subsection \<open>The adaptive radius\<close>

definition tau_in_range :: "manager \<Rightarrow> bool" where
  "tau_in_range m \<longleftrightarrow> 0.05 \<le> territory_tau m \<and> territory_tau m \<le> 0.6"

text \<open>The window is non-empty, within its capacity, and the radius is its clamped median.\<close>

definition tau_consistent :: "manager \<Rightarrow> bool" where
  "tau_consistent m \<longleftrightarrow>
     nn_distances m \<noteq> [] \<and> length (nn_distances m) \<le> 5000
     \<and> territory_tau m = clamp_real (median (nn_distances m)) 0.05 0.6"

text \<open>From \<open>m\<close> to \<open>m'\<close> the window and the radius are untouched, or a push has made them consistent.\<close>

definition tau_rel :: "manager \<Rightarrow> manager \<Rightarrow> bool" where
  "tau_rel m m' \<longleftrightarrow>
     (nn_distances m' = nn_distances m \<and> territory_tau m' = territory_tau m) \<or> tau_consistent m'"

definition tau_inv :: "manager \<Rightarrow> bool" where
  "tau_inv m \<longleftrightarrow> tau_in_range m \<and> length (nn_distances m) \<le> 5000
     \<and> (nn_distances m \<noteq> [] \<longrightarrow> territory_tau m = clamp_real (median (nn_distances m)) 0.05 0.6)"

definition files_tau :: filesystem where
  "files_tau =
     \<lparr>files = (\<lambda>p. if p = ''tau.json''
                      then Document (JObject [(''nn_distances'', JList [JFloat 0.5]),
                                              (''territory_tau'', JFloat 0.1)])
                    else NoFile),
      unwritable = {}\<rparr>"


subsection \<open>The condensation queue and the flag \<open>pending_condense\<close>\<close>

text \<open>The flag of the trace stored under an id, if there is one.\<close>

definition pending_flag :: "manager \<Rightarrow> string \<Rightarrow> bool option" where
  "pending_flag m k = map_option pending_condense (map_of (mem m) k)"

text \<open>
  Every id of the queue and every id of the store is in the queue exactly when a trace
  is stored under it with the flag set. So a queued id is stored, and a stored trace is
  queued if and only if its flag is set.
\<close>

definition cond_inv :: "manager \<Rightarrow> bool" where
  "cond_inv m \<longleftrightarrow>
     (\<forall>k \<in> set (pending_queue m) \<union> set (map fst (mem m)).
        k \<in> set (pending_queue m) \<longleftrightarrow> pending_flag m k = Some True)"

text \<open>From \<open>m\<close> to \<open>m'\<close> neither the queue nor any flag has changed.\<close>

definition flags_kept :: "manager \<Rightarrow> manager \<Rightarrow> bool" where
  "flags_kept m m' \<longleftrightarrow> pending_queue m' = pending_queue m \<and> pending_flag m' = pending_flag m"


section \<open>Instances for the examples\<close>

text \<open>
  A stand-in for the library functions (the identity as digest, list reversal as
  shuffle, a constant draw), the configuration of the repository's first test, and a
  small store.
\<close>

definition lib0 :: pylib where
  "lib0 = \<lparr>hash_text = (\<lambda>s. s), rng_seed = (\<lambda>s. nat \<bar>s\<bar>),
           rng_shuffle = (\<lambda>r xs. (rev xs, Suc r)), rng_random = (\<lambda>r. (1 / 2, Suc r)),
           float_of_str = (\<lambda>s. None), str_of_json = (\<lambda>v. [])\<rparr>"

definition config0 :: config where
  "config0 = \<lparr>capacity = 64, base_ttl = 120, decay_half_life = 32, prune_sample = 32,
     prune_target_ratio = 0.2, thread_safe = False, seed = Some 7,
     recency_half_life_ticks = 64, habituation_start = 32, habituation_scale = 1.0,
     boredom_weight = 0.35, frontier_novelty_threshold = 0.8, frontier_patience = 3,
     diffusion_interval = 12, diffusion_kappa = 0.25, exploration_churn_window = 32,
     condensation_boredom = 0.85, condensation_conf = 0.6, condensation_mass = 5.0\<rparr>"

definition trace0 :: "real \<Rightarrow> memory_state" where
  "trace0 nov = \<lparr>ms_text = ''t'', embedding = None, metadata = JNull, territory_id = Some 10000,
     ttl = 120, last_touch_tick = 0, use_count = 0, mass = 1.0, heat = 0.0, confidence = 0.35,
     novelty = nov, boredom = 0.0, inhibition = 0.0, frontier_hits = 0, pending_condense = False\<rparr>"

definition manager0 :: manager where
  "manager0 = (fresh_manager lib0 0 config0)\<lparr>mem := [(''a'', trace0 0.5), (''b'', trace0 0.25)],
      territory_counts := [(10000, 2)], territory_member_dists := [(10000, [])],
      next_territory_id := 10001\<rparr>"

definition manager_six :: manager where
  "manager_six = (fresh_manager lib0 0 config0)\<lparr>
      mem := [(''a'', trace0 0.1), (''b'', trace0 0.2), (''c'', trace0 0.3),
              (''d'', trace0 0.4), (''e'', trace0 0.5), (''f'', trace0 0.6)],
      territory_counts := [(10000, 6)], territory_member_dists := [(10000, [])],
      next_territory_id := 10001\<rparr>"


definition manager_twelve :: manager where
  "manager_twelve = (fresh_manager lib0 0 (config0\<lparr>capacity := 10, prune_target_ratio := 1.0\<rparr>))\<lparr>
      mem := map (\<lambda>k. (k, trace0 0.5))
               [''m01'', ''m02'', ''m03'', ''m04'', ''m05'', ''m06'',
                ''m07'', ''m08'', ''m09'', ''m10'', ''m11'', ''m12''],
      territory_counts := [(10000, 12)], territory_member_dists := [(10000, [])],
      next_territory_id := 10001, tick := 1\<rparr>"


definition files_bad_config :: filesystem where
  "files_bad_config =
     \<lparr>files = (\<lambda>p. if p = ''snapshot.json''
                      then Document (JObject [(''config'', JObject [(''capacity'', JInt 5)])])
                    else if p = ''list.json'' then Document (JList [])
                    else if p = ''latin1.json'' then NotUtf8
                    else NoFile),
      unwritable = {}\<rparr>"


definition args_seeded :: "(string \<times> json) list" where
  "args_seeded = [(''capacity'', JInt 64), (''base_ttl'', JInt 120), (''decay_half_life'', JInt 32),
     (''prune_sample'', JInt 32), (''prune_target_ratio'', JFloat 0.2), (''seed'', JInt 7),
     (''diffusion_interval'', JInt 12)]"

definition ops_example :: "op list" where
  "ops_example =
     [RegisterChunks [''mem-alpha'', ''mem-beta'', ''mem-gamma''] [''energy'', ''tensor'', ''quantum''] None None,
      Reinforce (Some [[''mem-alpha'', ''mem-beta''], [''mem-beta'', ''mem-gamma'']])
                (Some [[0.05, 0.15], [0.08, 0.35]]) 0.8 180,
      Degrade [''mem-alpha'', ''mem-beta'', ''mem-gamma''] 30,
      ToDict]"


text \<open>The configuration a snapshot without a \<open>config\<close> entry is loaded with.\<close>

definition config_default :: config where
  "config_default = \<lparr>capacity = 256, base_ttl = 128, decay_half_life = 32, prune_sample = 64,
     prune_target_ratio = 0.2, thread_safe = False, seed = None,
     recency_half_life_ticks = 64, habituation_start = 32, habituation_scale = 1.0,
     boredom_weight = 0.35, frontier_novelty_threshold = 0.8, frontier_patience = 3,
     diffusion_interval = 12, diffusion_kappa = 0.25, exploration_churn_window = 32,
     condensation_boredom = 0.85, condensation_conf = 0.6, condensation_mass = 5.0\<rparr>"


text \<open>A snapshot with one trace whose flag is set, and a file that holds it.\<close>

definition snapshot_pending :: json where
  "snapshot_pending = JObject [(''mem'', JObject [(''a'', JObject [(''pending_condense'', JBool True)])])]"

definition files_pending :: filesystem where
  "files_pending =
     \<lparr>files = (\<lambda>p. if p = ''pending.json'' then Document snapshot_pending else NoFile),
      unwritable = {}\<rparr>"


section \<open>Queries on an unknown id\<close>

text \<open>
  Claim C10. For an id that is not in the store, \<open>composite_score_for\<close> returns \<open>None\<close> and
  \<open>exploratory_weight\<close> returns \<open>0.0\<close>, and both leave the manager as it was.
\<close>

theorem queries_on_unknown_id:
  assumes "map_of (mem m) memory_id = None"
  shows "composite_score_for memory_id m = (None, m) \<and> exploratory_weight memory_id m = (0.0, m)"
  using assms by (simp add: composite_score_for_def exploratory_weight_def)

theorem queries_on_unknown_id_witness:
  "map_of (mem manager0) ''zz'' = None
   \<and> composite_score_for ''zz'' manager0 = (None, manager0)
   \<and> exploratory_weight ''zz'' manager0 = (0.0, manager0)"
proof -
  have h: "map_of (mem manager0) ''zz'' = None"
    by (simp add: manager0_def)
  show ?thesis using h queries_on_unknown_id [OF h] by simp
qed

section \<open>Degradation\<close>

lemma clamp_ranges_ok [simp]: "trace_ok (clamp_ranges ms)"
  by (simp add: trace_ok_def clamp_ranges_def clamp01_def)

lemma clamp_ranges_id: "trace_ok ms \<Longrightarrow> clamp_ranges ms = ms"
  by (simp add: trace_ok_def clamp_ranges_def clamp01_def)

lemma map_of_Some_key: "map_of al k = Some v \<Longrightarrow> k \<in> fst ` set al"
  by (auto dest!: map_of_SomeD intro: rev_image_eqI)

lemma degrade_loop_frame:
  "snd (degrade_loop fl ids c m) = m\<lparr>mem := mem (snd (degrade_loop fl ids c m))\<rparr>"
  by (induction fl ids c m rule: degrade_loop.induct) (auto split: option.splits)

lemma degrade_loop_keys:
  "map fst (mem (snd (degrade_loop fl ids c m))) = map fst (mem m)"
proof (induction fl ids c m rule: degrade_loop.induct)
  case (1 ttl_floor count m)
  show ?case by simp
next
  case (2 ttl_floor memory_id rest count m)
  show ?case
  proof (cases "map_of (mem m) memory_id")
    case None
    with 2 show ?thesis by simp
  next
    case (Some ms)
    then have "memory_id \<in> fst ` set (mem m)"
      by (rule map_of_Some_key)
    with 2 Some show ?thesis by (simp add: update_keys)
  qed
qed

lemma degrade_loop_map_of:
  "map_of (mem (snd (degrade_loop fl ids c m))) k
     = map_option (degrade_trace fl ^^ count_list ids k) (map_of (mem m) k)"
proof (induction fl ids c m rule: degrade_loop.induct)
  case (1 ttl_floor count m)
  show ?case by (simp add: option.map_ident)
next
  case (2 ttl_floor memory_id rest count m)
  show ?case
  proof (cases "map_of (mem m) memory_id")
    case None
    with 2 show ?thesis by (cases "map_of (mem m) k") auto
  next
    case (Some ms)
    with 2 show ?thesis
      by (auto simp: update_conv' funpow_swap1)
  qed
qed

lemma boredom_steps:
  "min 1 (min 1 (b + 1 / 10 * real (Suc n)) + 1 / 10) = min (1::real) (b + 1 / 10 * real (Suc (Suc n)))"
  by (auto simp: min_def add_divide_distrib)

lemma degrade_trace_once:
  assumes "trace_ok ms" and "1 \<le> fl"
  shows "degrade_trace fl ms = ms\<lparr>ttl := min (ttl ms) fl, boredom := min 1 (boredom ms + 0.1)\<rparr>"
    and "trace_ok (degrade_trace fl ms)"
proof -
  have ok: "trace_ok (ms\<lparr>ttl := min (ttl ms) fl, boredom := min 1 (boredom ms + 0.1)\<rparr>)"
    using assms by (simp add: trace_ok_def)
  show "degrade_trace fl ms = ms\<lparr>ttl := min (ttl ms) fl, boredom := min 1 (boredom ms + 0.1)\<rparr>"
    unfolding degrade_trace_def using clamp_ranges_id [OF ok] by simp
  show "trace_ok (degrade_trace fl ms)"
    by (simp add: degrade_trace_def)
qed

lemma degrade_trace_funpow:
  assumes "trace_ok ms" and "1 \<le> fl"
  shows "(degrade_trace fl ^^ Suc n) ms
           = ms\<lparr>ttl := min (ttl ms) fl, boredom := min 1 (boredom ms + 0.1 * real (Suc n))\<rparr>
         \<and> trace_ok ((degrade_trace fl ^^ Suc n) ms)"
proof (induction n)
  case 0
  show ?case using degrade_trace_once [OF assms] by simp
next
  case (Suc n)
  let ?p = "(degrade_trace fl ^^ Suc n) ms"
  from Suc have p: "?p = ms\<lparr>ttl := min (ttl ms) fl, boredom := min 1 (boredom ms + 0.1 * real (Suc n))\<rparr>"
    and ok: "trace_ok ?p" by auto
  have s: "(degrade_trace fl ^^ Suc (Suc n)) ms = degrade_trace fl ?p"
    by simp
  have "degrade_trace fl ?p = ?p\<lparr>ttl := min (ttl ?p) fl, boredom := min 1 (boredom ?p + 0.1)\<rparr>"
    using degrade_trace_once(1) [OF ok assms(2)] .
  also have "\<dots> = ms\<lparr>ttl := min (ttl ms) fl, boredom := min 1 (boredom ms + 0.1 * real (Suc (Suc n)))\<rparr>"
    unfolding p using boredom_steps [of "boredom ms" n] by simp
  finally have e: "degrade_trace fl ?p
      = ms\<lparr>ttl := min (ttl ms) fl, boredom := min 1 (boredom ms + 0.1 * real (Suc (Suc n)))\<rparr>" .
  have "trace_ok (degrade_trace fl ?p)"
    using degrade_trace_once(2) [OF ok assms(2)] .
  with e s show ?case by simp
qed

text \<open>
  Claim C8, as amended. For \<open>degrade(ids, ttl_floor)\<close> with \<open>ttl_floor \<ge> 1\<close>: the call does
  not raise; apart from the traces and the event log the manager is unchanged (the tick
  does not advance; no decay, prune or diffusion runs); the store keeps its keys in
  their order; an unknown id stays unknown; a trace that is not listed is unchanged; and
  a known trace within its ranges that is listed \<open>n\<close> times ends with
  \<open>ttl = min(previous ttl, ttl_floor)\<close> and \<open>boredom = min(1, previous boredom + 0.1 * n)\<close>,
  its other fields unchanged.
\<close>

theorem degrade_effect:
  assumes "1 \<le> ttl_floor"
  shows "fst (degrade ids ttl_floor m) = None
    \<and> snd (degrade ids ttl_floor m)
        = m\<lparr>mem := mem (snd (degrade ids ttl_floor m)), events := events (snd (degrade ids ttl_floor m))\<rparr>
    \<and> map fst (mem (snd (degrade ids ttl_floor m))) = map fst (mem m)
    \<and> (\<forall>k. map_of (mem m) k = None \<longrightarrow> map_of (mem (snd (degrade ids ttl_floor m))) k = None)
    \<and> (\<forall>k. k \<notin> set ids \<longrightarrow> map_of (mem (snd (degrade ids ttl_floor m))) k = map_of (mem m) k)
    \<and> (\<forall>k ms. k \<in> set ids \<and> map_of (mem m) k = Some ms \<and> trace_ok ms \<longrightarrow>
          map_of (mem (snd (degrade ids ttl_floor m))) k
            = Some (ms\<lparr>ttl := min (ttl ms) ttl_floor,
                       boredom := min 1 (boredom ms + 0.1 * real (count_list ids k))\<rparr>))"
proof -
  let ?l = "degrade_loop ttl_floor ids 0 m"
  have r: "require_int (JInt ttl_floor) 1 ''ttl_floor'' = Inr ttl_floor"
    using assms by (simp add: require_int_def)
  have d: "degrade ids ttl_floor m
      = (None, if fst ?l \<noteq> 0 then record_event ''degrade'' [(''count'', JInt (fst ?l))] (snd ?l) else snd ?l)"
    by (simp add: degrade_def r Let_def)
  have memeq: "mem (snd (degrade ids ttl_floor m)) = mem (snd ?l)"
    by (simp add: d record_event_def)
  have fr: "snd ?l = m\<lparr>mem := mem (snd ?l)\<rparr>"
    by (rule degrade_loop_frame)
  have c1: "fst (degrade ids ttl_floor m) = None"
    by (simp add: d)
  have c2: "snd (degrade ids ttl_floor m)
        = m\<lparr>mem := mem (snd (degrade ids ttl_floor m)), events := events (snd (degrade ids ttl_floor m))\<rparr>"
  proof (cases "fst ?l \<noteq> 0")
    case True
    then have "snd (degrade ids ttl_floor m) = record_event ''degrade'' [(''count'', JInt (fst ?l))] (snd ?l)"
      by (simp add: d)
    then show ?thesis
      by (subst (1 2 3) \<open>snd (degrade ids ttl_floor m) = _\<close>, subst (1 2 3) fr) (simp add: record_event_def)
  next
    case False
    then have "snd (degrade ids ttl_floor m) = snd ?l"
      by (simp add: d)
    then show ?thesis
      by (subst (1 2 3) \<open>snd (degrade ids ttl_floor m) = _\<close>, subst (1 2 3) fr) simp
  qed
  have c3: "map fst (mem (snd (degrade ids ttl_floor m))) = map fst (mem m)"
    by (simp add: memeq degrade_loop_keys)
  have c3': "\<forall>k. map_of (mem m) k = None \<longrightarrow> map_of (mem (snd (degrade ids ttl_floor m))) k = None"
    by (simp add: memeq degrade_loop_map_of)
  have c4: "\<forall>k. k \<notin> set ids \<longrightarrow> map_of (mem (snd (degrade ids ttl_floor m))) k = map_of (mem m) k"
    by (simp add: memeq degrade_loop_map_of option.map_id0)
  have c5: "\<forall>k ms. k \<in> set ids \<and> map_of (mem m) k = Some ms \<and> trace_ok ms \<longrightarrow>
          map_of (mem (snd (degrade ids ttl_floor m))) k
            = Some (ms\<lparr>ttl := min (ttl ms) ttl_floor,
                       boredom := min 1 (boredom ms + 0.1 * real (count_list ids k))\<rparr>)"
  proof (intro allI impI)
    fix k ms
    assume a: "k \<in> set ids \<and> map_of (mem m) k = Some ms \<and> trace_ok ms"
    then have "count_list ids k \<noteq> 0"
      by (simp add: count_list_0_iff)
    then obtain n where n: "count_list ids k = Suc n"
      by (cases "count_list ids k") auto
    show "map_of (mem (snd (degrade ids ttl_floor m))) k
            = Some (ms\<lparr>ttl := min (ttl ms) ttl_floor,
                       boredom := min 1 (boredom ms + 0.1 * real (count_list ids k))\<rparr>)"
      using a degrade_trace_funpow [of ms ttl_floor n] assms
      by (simp add: memeq degrade_loop_map_of n)
  qed
  from c1 c2 c3 c3' c4 c5 show ?thesis by blast
qed


theorem degrade_effect_witness:
  "(1::int) \<le> 30
   \<and> fst (degrade [''a'', ''zz''] 30 manager0) = None
   \<and> tick (snd (degrade [''a'', ''zz''] 30 manager0)) = tick manager0
   \<and> map_of (mem (snd (degrade [''a'', ''zz''] 30 manager0))) ''zz'' = None
   \<and> map_of (mem (snd (degrade [''a'', ''zz''] 30 manager0))) ''b'' = Some (trace0 0.25)
   \<and> map_of (mem (snd (degrade [''a'', ''zz''] 30 manager0))) ''a''
       = Some ((trace0 0.5)\<lparr>ttl := 30, boredom := 0.1\<rparr>)"
proof -
  let ?m = "snd (degrade [''a'', ''zz''] 30 manager0)"
  have h: "(1::int) \<le> 30" by simp
  note t = degrade_effect [OF h, of "[''a'', ''zz'']" manager0]
  have a: "map_of (mem manager0) ''a'' = Some (trace0 0.5)"
    and b: "map_of (mem manager0) ''b'' = Some (trace0 0.25)"
    and z: "map_of (mem manager0) ''zz'' = None"
    by (simp_all add: manager0_def)
  have ok: "trace_ok (trace0 0.5)"
    by (simp add: trace_ok_def trace0_def)
  from t have fr: "?m = manager0\<lparr>mem := mem ?m, events := events ?m\<rparr>" by blast
  have c2: "tick ?m = tick manager0"
    by (subst fr) simp
  from t z have c3: "map_of (mem ?m) ''zz'' = None" by simp
  from t b have c4: "map_of (mem ?m) ''b'' = Some (trace0 0.25)" by simp
  from t a ok have "map_of (mem ?m) ''a''
      = Some ((trace0 0.5)\<lparr>ttl := min (ttl (trace0 0.5)) 30,
                boredom := min 1 (boredom (trace0 0.5) + 0.1 * real (count_list [''a'', ''zz''] ''a''))\<rparr>)"
    by simp
  then have c5: "map_of (mem ?m) ''a'' = Some ((trace0 0.5)\<lparr>ttl := 30, boredom := 0.1\<rparr>)"
    by (simp add: trace0_def)
  from t h c2 c3 c4 c5 show ?thesis by blast
qed

text \<open>
  The claim as stated promises \<open>boredom = min(1, previous + 0.1)\<close> for each known id. The
  loop runs once per element of \<open>ids\<close>, so an id listed twice gains \<open>0.2\<close>.
\<close>

theorem degrade_listed_twice_counterexample:
  "boredom (the (map_of (mem manager0) ''a'')) = 0
   \<and> boredom (the (map_of (mem (snd (degrade [''a'', ''a''] 5 manager0))) ''a'')) = 0.2
   \<and> min 1 (boredom (the (map_of (mem manager0) ''a'')) + 0.1) = (0.1::real)"
  by (simp add: degrade_def require_int_def degrade_trace_def clamp_ranges_def clamp01_def
      manager0_def fresh_manager_def trace0_def record_event_def Let_def)


section \<open>Territory split\<close>

lemma split_loop_frame:
  "snd (snd (split_loop new_tid cands csum cnt m)) = m\<lparr>mem := mem (snd (snd (split_loop new_tid cands csum cnt m)))\<rparr>"
  by (induction new_tid cands csum cnt m rule: split_loop.induct) (auto simp: Let_def)

lemma split_loop_count:
  "fst (snd (split_loop new_tid cands csum cnt m)) = cnt + int (length cands)"
  by (induction new_tid cands csum cnt m rule: split_loop.induct) (auto simp: Let_def)

lemma split_loop_map_of:
  "map_of (mem (snd (snd (split_loop new_tid cands csum cnt m)))) k
     = map_option (\<lambda>st. if k \<in> fst ` set cands then st\<lparr>territory_id := Some new_tid\<rparr> else st)
         (map_of (mem m) k)"
proof (induction new_tid cands csum cnt m rule: split_loop.induct)
  case (1 new_tid centroid_sum new_count m)
  show ?case by (simp add: option.map_ident)
next
  case (2 new_tid k' st rest centroid_sum new_count m)
  show ?case
    using 2 by (cases "map_of (mem m) k") (auto simp: Let_def map_of_map_entry)
qed

lemma mem_create_territory [simp]: "mem (snd (create_territory L m e t)) = mem m"
  by (simp add: create_territory_def Let_def record_event_def)

lemma split_counter_create_territory [simp]:
  "split_counter (snd (create_territory L m e t)) = split_counter m"
  by (simp add: create_territory_def Let_def record_event_def)

lemma fst_create_territory [simp]: "fst (create_territory L m e t) = next_territory_id m"
  by (simp add: create_territory_def Let_def)

lemma maybe_split_proceeds:
  assumes "map_of (mem m) mid = Some ms" and "territory_id ms = Some tid"
    and "6 \<le> length (split_members m tid)"
    and "2 \<le> length (split_candidates (split_members m tid))"
    and "length (split_candidates (split_members m tid)) < length (split_members m tid)"
  shows "split_counter (maybe_split_territory L m mid) = split_counter m + 1"
    and "map_of (mem (maybe_split_territory L m mid)) k
           = map_option
               (\<lambda>st. if k \<in> fst ` set (split_candidates (split_members m tid))
                      then st\<lparr>territory_id := Some (next_territory_id m)\<rparr> else st)
               (map_of (mem m) k)"
proof -
  let ?M = "split_members m tid"
  let ?C = "split_candidates ?M"
  let ?seed = "case embedding (snd (hd ?C)) of None \<Rightarrow> [] | Some e \<Rightarrow> e"
  let ?cr = "create_territory L m ?seed (ms_text ms)"
  let ?lp = "split_loop (fst ?cr) ?C None 0 (snd ?cr)"
  have fr: "snd (snd ?lp) = (snd ?cr)\<lparr>mem := mem (snd (snd ?lp))\<rparr>"
    by (rule split_loop_frame)
  have sc: "split_counter (snd (snd ?lp)) = split_counter m"
    by (subst fr) simp
  have mo: "map_of (mem (snd (snd ?lp))) k
      = map_option (\<lambda>st. if k \<in> fst ` set ?C then st\<lparr>territory_id := Some (next_territory_id m)\<rparr> else st)
          (map_of (mem m) k)"
    using split_loop_map_of [of "fst ?cr" ?C None 0 "snd ?cr"] by (simp cong: if_cong)
  have m_eq: "mem (maybe_split_territory L m mid) = mem (snd (snd ?lp))"
    using assms by (simp add: maybe_split_territory_def Let_def record_event_def split: option.splits)
  have s_eq: "split_counter (maybe_split_territory L m mid) = split_counter (snd (snd ?lp)) + 1"
    using assms by (simp add: maybe_split_territory_def Let_def record_event_def split: option.splits)
  show "split_counter (maybe_split_territory L m mid) = split_counter m + 1"
    using s_eq sc by simp
  show "map_of (mem (maybe_split_territory L m mid)) k
           = map_option (\<lambda>st. if k \<in> fst ` set ?C
                      then st\<lparr>territory_id := Some (next_territory_id m)\<rparr> else st)
               (map_of (mem m) k)"
    using m_eq mo by simp
qed

text \<open>
  Claim C7, as amended. Let \<open>M\<close> be the traces that share the territory of the trace
  \<open>ms\<close> and \<open>med\<close> the element at index \<open>|M| div 2\<close> of their novelties in ascending order
  (the upper median: for an even \<open>|M|\<close> the larger of the two middle values, no mean is
  taken). The candidates are \<open>C = {x \<in> M. novelty x > med \<and> boredom x < 0.7}\<close>. Unless
  \<open>|M| \<ge> 6\<close> and \<open>2 \<le> |C| < |M|\<close> the call changes nothing; otherwise the split is
  counted and exactly the traces of \<open>C\<close> are moved to the new territory, every other
  trace and every other field of a moved trace staying as it was.
\<close>

theorem split_candidates_and_guard:
  assumes "map_of (mem m) mid = Some ms" and "territory_id ms = Some tid"
  shows "split_candidates (split_members m tid)
           = filter (\<lambda>(k, st). novelty st > sort (map (\<lambda>(k, st). novelty st) (split_members m tid))
                                                 ! (length (split_members m tid) div 2)
                                \<and> boredom st < 0.7)
               (split_members m tid)
    \<and> (\<not> (6 \<le> length (split_members m tid)
           \<and> 2 \<le> length (split_candidates (split_members m tid))
           \<and> length (split_candidates (split_members m tid)) < length (split_members m tid))
        \<longrightarrow> maybe_split_territory L m mid = m)
    \<and> (6 \<le> length (split_members m tid)
           \<and> 2 \<le> length (split_candidates (split_members m tid))
           \<and> length (split_candidates (split_members m tid)) < length (split_members m tid)
        \<longrightarrow> split_counter (maybe_split_territory L m mid) = split_counter m + 1
            \<and> (\<forall>k. map_of (mem (maybe_split_territory L m mid)) k
                     = map_option
                         (\<lambda>st. if k \<in> fst ` set (split_candidates (split_members m tid))
                                then st\<lparr>territory_id := Some (next_territory_id m)\<rparr> else st)
                         (map_of (mem m) k)))"
proof -
  let ?M = "split_members m tid"
  let ?C = "split_candidates ?M"
  have le: "length ?C \<le> length ?M"
    by (simp add: split_candidates_def)
  have c1: "?C = filter (\<lambda>(k, st). novelty st > sort (map (\<lambda>(k, st). novelty st) ?M) ! (length ?M div 2)
                                \<and> boredom st < 0.7) ?M"
    by (simp add: split_candidates_def split_median_novelty_def Let_def)
  have c2: "\<not> (6 \<le> length ?M \<and> 2 \<le> length ?C \<and> length ?C < length ?M)
        \<longrightarrow> maybe_split_territory L m mid = m"
    using assms le by (auto simp: maybe_split_territory_def Let_def)
  have c3: "6 \<le> length ?M \<and> 2 \<le> length ?C \<and> length ?C < length ?M
        \<longrightarrow> split_counter (maybe_split_territory L m mid) = split_counter m + 1
            \<and> (\<forall>k. map_of (mem (maybe_split_territory L m mid)) k
                     = map_option (\<lambda>st. if k \<in> fst ` set ?C
                                then st\<lparr>territory_id := Some (next_territory_id m)\<rparr> else st)
                         (map_of (mem m) k))"
    using maybe_split_proceeds [OF assms] by blast
  from c1 c2 c3 show ?thesis by blast
qed

lemma six_mem:
  "mem manager_six = [(''a'', trace0 0.1), (''b'', trace0 0.2), (''c'', trace0 0.3),
                      (''d'', trace0 0.4), (''e'', trace0 0.5), (''f'', trace0 0.6)]"
  by (simp add: manager_six_def)

lemma six_members: "split_members manager_six 10000 = mem manager_six"
  by (simp add: split_members_def manager_six_def trace0_def)

lemma six_candidates:
  "split_candidates (mem manager_six) = [(''e'', trace0 0.5), (''f'', trace0 0.6)]"
  by (simp add: split_candidates_def split_median_novelty_def manager_six_def trace0_def Let_def)


theorem split_candidates_and_guard_witness:
  "map_of (mem manager_six) ''f'' = Some (trace0 0.6) \<and> territory_id (trace0 0.6) = Some 10000
   \<and> split_candidates (split_members manager_six 10000) = [(''e'', trace0 0.5), (''f'', trace0 0.6)]
   \<and> split_counter (maybe_split_territory lib0 manager_six ''f'') = 1
   \<and> map_of (mem (maybe_split_territory lib0 manager_six ''f'')) ''e''
        = Some ((trace0 0.5)\<lparr>territory_id := Some 10001\<rparr>)
   \<and> map_of (mem (maybe_split_territory lib0 manager_six ''f'')) ''a'' = Some (trace0 0.1)
   \<and> map_of (mem manager0) ''a'' = Some (trace0 0.5)
   \<and> maybe_split_territory lib0 manager0 ''a'' = manager0"
proof -
  have f: "map_of (mem manager_six) ''f'' = Some (trace0 0.6)"
    and e: "map_of (mem manager_six) ''e'' = Some (trace0 0.5)"
    and a: "map_of (mem manager_six) ''a'' = Some (trace0 0.1)"
    by (simp_all add: manager_six_def)
  have t: "territory_id (trace0 0.6) = Some 10000" "territory_id (trace0 0.5) = Some 10000"
    by (simp_all add: trace0_def)
  have c: "split_candidates (split_members manager_six 10000) = [(''e'', trace0 0.5), (''f'', trace0 0.6)]"
    by (simp add: six_members six_candidates)
  have l: "length (split_members manager_six 10000) = 6"
    unfolding six_members six_mem by simp
  have n: "next_territory_id manager_six = 10001" "split_counter manager_six = 0"
    by (simp_all add: manager_six_def fresh_manager_def)
  note w = split_candidates_and_guard [OF f t(1), of lib0]
  from w c l n have s: "split_counter (maybe_split_territory lib0 manager_six ''f'') = 1"
    by simp
  from w c l n e have se: "map_of (mem (maybe_split_territory lib0 manager_six ''f'')) ''e''
        = Some ((trace0 0.5)\<lparr>territory_id := Some 10001\<rparr>)"
    by simp
  from w c l n a have sa: "map_of (mem (maybe_split_territory lib0 manager_six ''f'')) ''a'' = Some (trace0 0.1)"
    by simp
  have a0: "map_of (mem manager0) ''a'' = Some (trace0 0.5)"
    by (simp add: manager0_def)
  have l0: "length (split_members manager0 10000) = 2"
    by (simp add: split_members_def manager0_def trace0_def)
  from split_candidates_and_guard [OF a0 t(2), of lib0] l0
  have u: "maybe_split_territory lib0 manager0 ''a'' = manager0"
    by simp
  from f t(1) c s se sa a0 u show ?thesis by blast
qed

text \<open>
  Six traces of one territory with novelties \<open>0.1, ..., 0.6\<close> and boredom \<open>0\<close>. Their
  statistical median is \<open>0.35\<close>, so the trace \<open>d\<close> (novelty \<open>0.4\<close>) belongs to the
  candidate set of the claim as stated. The code compares with \<open>0.4\<close>: the split takes
  place, \<open>e\<close> moves to territory 10001 and \<open>d\<close> stays in territory 10000.
\<close>

theorem split_statistical_median_counterexample:
  "median (map (\<lambda>(k, st). novelty st) (split_members manager_six 10000)) = 0.35
   \<and> map_of (mem manager_six) ''d'' = Some (trace0 0.4)
   \<and> novelty (trace0 0.4) > 0.35 \<and> boredom (trace0 0.4) < 0.7
   \<and> split_counter (maybe_split_territory lib0 manager_six ''f'') = 1
   \<and> territory_id (the (map_of (mem (maybe_split_territory lib0 manager_six ''f'')) ''e'')) = Some 10001
   \<and> territory_id (the (map_of (mem (maybe_split_territory lib0 manager_six ''f'')) ''d'')) = Some 10000"
proof -
  have m: "median (map (\<lambda>(k, st). novelty st) (split_members manager_six 10000)) = 0.35"
    unfolding six_members six_mem by (simp add: trace0_def median_def)
  have d: "map_of (mem manager_six) ''d'' = Some (trace0 0.4)"
    and e: "map_of (mem manager_six) ''e'' = Some (trace0 0.5)"
    and f: "map_of (mem manager_six) ''f'' = Some (trace0 0.6)"
    unfolding six_mem by simp_all
  have nb: "novelty (trace0 0.4) > 0.35 \<and> boredom (trace0 0.4) < 0.7"
    by (simp add: trace0_def)
  have t: "territory_id (trace0 0.6) = Some 10000"
    by (simp add: trace0_def)
  have c: "split_candidates (split_members manager_six 10000) = [(''e'', trace0 0.5), (''f'', trace0 0.6)]"
    by (simp add: six_members six_candidates)
  have l: "length (split_members manager_six 10000) = 6"
    unfolding six_members six_mem by simp
  have g: "6 \<le> length (split_members manager_six 10000)"
    "2 \<le> length (split_candidates (split_members manager_six 10000))"
    "length (split_candidates (split_members manager_six 10000)) < length (split_members manager_six 10000)"
    unfolding c l by simp_all
  have n: "next_territory_id manager_six = 10001" "split_counter manager_six = 0"
    by (simp_all add: manager_six_def fresh_manager_def)
  note p = maybe_split_proceeds [OF f t g, of lib0]
  have c5: "split_counter (maybe_split_territory lib0 manager_six ''f'') = 1"
    using p(1) n by simp
  have c6: "territory_id (the (map_of (mem (maybe_split_territory lib0 manager_six ''f'')) ''e'')) = Some 10001"
    unfolding p(2) [of "''e''"] c e n by simp
  have c7: "territory_id (the (map_of (mem (maybe_split_territory lib0 manager_six ''f'')) ''d'')) = Some 10000"
    unfolding p(2) [of "''d''"] c d n by (simp add: trace0_def)
  from m d nb c5 c6 c7 show ?thesis by blast
qed


section \<open>Pruning\<close>

lemma mem_record_event [simp]: "mem (record_event t p m) = mem m"
  by (simp add: record_event_def)

lemma mem_remove_memory: "mem (remove_memory m k) = AList.delete k (mem m)"
proof (cases "map_of (mem m) k")
  case None
  then have "k \<notin> fst ` set (mem m)"
    by (simp add: map_of_eq_None_iff)
  with None show ?thesis by (simp add: remove_memory_def)
next
  case (Some ms)
  then show ?thesis
    by (simp add: remove_memory_def Let_def split: option.splits)
qed

lemma mem_foldl_remove_memory:
  "mem (foldl remove_memory m ks) = filter (\<lambda>(k, ms). k \<notin> set ks) (mem m)"
proof (induction ks arbitrary: m)
  case Nil
  show ?case by simp
next
  case (Cons x ks)
  have "filter (\<lambda>(k, ms). k \<notin> set ks) (AList.delete x al)
          = filter (\<lambda>(k, ms). k \<notin> set (x # ks)) al" for al :: "(string \<times> memory_state) list"
    by (induction al) auto
  then show ?case
    by (simp add: Cons mem_remove_memory)
qed

lemma last_dq_append: "0 < n \<Longrightarrow> last (dq_append n xs x) = x"
  by (simp add: dq_append_def Let_def)

lemma trunc_floor: "0 \<le> r \<Longrightarrow> trunc r = \<lfloor>r\<rfloor>"
  by (simp add: trunc_def)

text \<open>The value of \<open>float_round\<close> from the scaled significand.\<close>

lemma float_round_scaled:
  assumes lo: "2 ^ 52 \<le> \<bar>x\<bar> * 2 ^ k" and hi: "\<bar>x\<bar> * 2 ^ k < 2 ^ 53" and k: "k \<le> 1074"
  shows "float_round x = real_of_int (ties_even (x * 2 ^ k)) / 2 ^ k"
proof -
  let ?e = "52 - int k"
  have x0: "x \<noteq> 0" using lo by auto
  have pk: "2 powr (real_of_int ?e) = 2 ^ 52 / 2 ^ k"
    by (simp add: powr_diff powr_realpow)
  have pk1: "2 powr (real_of_int (?e + 1)) = 2 ^ 53 / 2 ^ k"
    by (simp add: powr_diff powr_realpow flip: powr_add)
  have "2 powr (real_of_int ?e) \<le> \<bar>x\<bar>"
    unfolding pk using lo by (simp add: divide_le_eq)
  moreover have "\<bar>x\<bar> < 2 powr (real_of_int (?e + 1))"
    unfolding pk1 using hi by (simp add: less_divide_eq)
  ultimately have fl: "\<lfloor>log 2 \<bar>x\<bar>\<rfloor> = ?e"
    using x0 by (subst floor_log_eq_powr_iff) auto
  have m: "max ?e (- 1022) = ?e" using k by simp
  have u: "2 powr (- real k) = 1 / 2 ^ k"
    by (simp add: powr_minus powr_realpow divide_simps)
  show ?thesis
    unfolding float_round_def using x0 by (simp add: fl m u Let_def)
qed

lemma float_round_1: "float_round 1 = 1"
  by (subst float_round_scaled [where k = 52]) (simp_all add: ties_even_def)

lemma float_round_0_05: "float_round 0.05 = 7205759403792794 / 2 ^ 57"
  by (subst float_round_scaled [where k = 57]) (simp_all add: ties_even_def Let_def)

lemma float_round_0_95: "float_round 0.95 = 8556839292003942 / 2 ^ 53"
  by (subst float_round_scaled [where k = 53]) (simp_all add: ties_even_def Let_def)

lemma float_of_int_10: "float_of_int 10 = 10"
  unfolding float_of_int_def
  by (subst float_round_scaled [where k = 49]) (simp_all add: ties_even_def Let_def)

lemma float_of_int_12: "float_of_int 12 = 12"
  unfolding float_of_int_def
  by (subst float_round_scaled [where k = 49]) (simp_all add: ties_even_def Let_def)

lemma float_mul_12: "float_mul 12 (8556839292003942 / 2 ^ 53) = 6417629469002956 / 2 ^ 49"
  unfolding float_mul_def
  by (subst float_round_scaled [where k = 49]) (simp_all add: ties_even_def Let_def)

lemma float_sub_10: "float_sub (6417629469002956 / 2 ^ 49) 10 = 788129934789836 / 2 ^ 49"
  unfolding float_sub_def
  by (subst float_round_scaled [where k = 52]) (simp_all add: ties_even_def Let_def)

text \<open>
  Twelve traces, capacity ten and the ratio \<open>1.0\<close>: the ratio is clamped to the float
  \<open>0.95\<close>, the product is \<open>11.399999999999999\<close> and the difference \<open>1.3999999999999986\<close>.
\<close>

lemma twelve_float_count:
  "\<lfloor>max 1 (float_sub (float_mul (float_of_int 12) (min (float_round 1) (float_round 0.95)))
                      (float_of_int 10))\<rfloor> = 1"
proof -
  have a: "min (float_round 1) (float_round 0.95) = 8556839292003942 / 2 ^ 53"
    unfolding float_round_1 float_round_0_95 by simp
  show ?thesis
    unfolding a float_of_int_12 float_of_int_10 float_mul_12 float_sub_10 by simp
qed

text \<open>
  Fifty traces, capacity ten and the ratio \<open>0.58\<close>: the product of 50 and the float
  \<open>0.58\<close> is \<open>28.999999999999996\<close>, not 29, and the count is 18.
\<close>

lemma float_count_50_0_58:
  "\<lfloor>max 1 (float_sub (float_mul (float_of_int 50) (float_round 0.58)) (float_of_int 10))\<rfloor> = 18"
proof -
  have a: "float_round 0.58 = 5224175567749775 / 2 ^ 53"
    by (subst float_round_scaled [where k = 53]) (simp_all add: ties_even_def Let_def)
  have b: "float_of_int 50 = 50"
    unfolding float_of_int_def
    by (subst float_round_scaled [where k = 47]) (simp_all add: ties_even_def Let_def)
  have c: "float_mul 50 (5224175567749775 / 2 ^ 53) = 8162774324609023 / 2 ^ 48"
    unfolding float_mul_def
    by (subst float_round_scaled [where k = 48]) (simp_all add: ties_even_def Let_def)
  have d: "float_sub (8162774324609023 / 2 ^ 48) 10 = 5348024557502463 / 2 ^ 48"
    unfolding float_sub_def
    by (subst float_round_scaled [where k = 48]) (simp_all add: ties_even_def Let_def)
  show ?thesis
    unfolding a b c d float_of_int_10 by simp
qed

lemma prune_target_drop_formula:
  assumes "float_round 0.05 \<le> float_round (prune_target_ratio (cfg m))"
  shows "prune_target_drop m
     = max 1 (min (int (length (mem m)) - capacity (cfg m))
                \<lfloor>max 1 (float_sub
                          (float_mul (float_of_int (int (length (mem m))))
                                     (min (float_round (prune_target_ratio (cfg m))) (float_round 0.95)))
                          (float_of_int (capacity (cfg m))))\<rfloor>)"
proof -
  have c: "clamp_real (float_round (prune_target_ratio (cfg m))) (float_round 0.05) (float_round 0.95)
        = min (float_round (prune_target_ratio (cfg m))) (float_round 0.95)"
    using assms by (simp add: clamp_real_def min_def)
  show ?thesis
    unfolding prune_target_drop_def Let_def c by (simp add: trunc_floor)
qed

lemma prune_if_needed_over:
  assumes "capacity (cfg m) < int (length (mem m))"
    and "set (prune_sampled L m) \<subseteq> fst ` set (mem m)"
  shows "prune_if_needed L m
     = (None, record_event ''prune'' [(''count'', JInt (prune_target_drop m))]
          (foldl remove_memory (m\<lparr>rng := snd (rng_shuffle L (rng m) (map fst (mem m)))\<rparr>)
             (take (nat (prune_target_drop m)) (prune_scored L m))))"
proof -
  have "list_all (\<lambda>mid. map_of (mem m) mid \<noteq> None) (prune_sampled L m)"
    using assms(2) by (auto simp: list_all_iff map_of_eq_None_iff)
  with assms(1) show ?thesis
    by (simp add: prune_if_needed_def Let_def)
qed


text \<open>
  Claim C6, as amended. When the store holds more traces than \<open>capacity\<close> at the prune
  step (and the shuffle returns stored ids, as a shuffle of the keys does), the step
  does not raise, the \<open>prune\<close> event it appends reports the count
  \<open>max(1, min(|mem| - capacity, floor(max(1, |mem| * r - capacity))))\<close> where \<open>r\<close> is the
  configured \<open>prune_target_ratio\<close> capped at the float \<open>0.95\<close>, and the product and the
  difference are those of Python's floats, each rounded to the nearest float; and the
  traces removed are the first that many ids of the sample sorted by ascending composite
  score, the sample being the first \<open>prune_sample\<close> ids of the shuffled key list. The
  bounds on \<open>capacity\<close> and on the number of traces are those of a validated manager and
  of a Python \<open>dict\<close>; within them no conversion to a float overflows.
\<close>

theorem prune_removes_lowest_of_sample:
  assumes "capacity (cfg m) < int (length (mem m))"
    and "float_round 0.05 \<le> float_round (prune_target_ratio (cfg m))"
    and "set (fst (rng_shuffle L (rng m) (map fst (mem m)))) \<subseteq> fst ` set (mem m)"
    and "10 \<le> capacity (cfg m)" and "length (mem m) < 2 ^ 63"
  shows "fst (prune_if_needed L m) = None
    \<and> mem (snd (prune_if_needed L m))
        = filter (\<lambda>(k, ms). k \<notin> set
            (take (nat (max 1 (min (int (length (mem m)) - capacity (cfg m))
                \<lfloor>max 1 (float_sub
                          (float_mul (float_of_int (int (length (mem m))))
                                     (min (float_round (prune_target_ratio (cfg m))) (float_round 0.95)))
                          (float_of_int (capacity (cfg m))))\<rfloor>)))
               (sort_key (\<lambda>mid. composite_score m (the (map_of (mem m) mid)))
                  (take (nat (prune_sample (cfg m))) (fst (rng_shuffle L (rng m) (map fst (mem m)))))))) (mem m)
    \<and> last (events (snd (prune_if_needed L m)))
        = [(''count'', JInt (max 1 (min (int (length (mem m)) - capacity (cfg m))
                \<lfloor>max 1 (float_sub
                          (float_mul (float_of_int (int (length (mem m))))
                                     (min (float_round (prune_target_ratio (cfg m))) (float_round 0.95)))
                          (float_of_int (capacity (cfg m))))\<rfloor>))),
           (''type'', JString ''prune''), (''tick'', JInt (tick m))]"
proof -
  let ?target = "max 1 (min (int (length (mem m)) - capacity (cfg m))
                \<lfloor>max 1 (float_sub
                          (float_mul (float_of_int (int (length (mem m))))
                                     (min (float_round (prune_target_ratio (cfg m))) (float_round 0.95)))
                          (float_of_int (capacity (cfg m))))\<rfloor>)"
  let ?shuffled = "fst (rng_shuffle L (rng m) (map fst (mem m)))"
  have sampled: "prune_sampled L m = take (nat (prune_sample (cfg m))) ?shuffled"
    by (simp add: prune_sampled_def Let_def min_def)
  have sub: "set (prune_sampled L m) \<subseteq> fst ` set (mem m)"
    unfolding sampled using assms(3) by (meson set_take_subset subset_trans)
  have t: "prune_target_drop m = ?target"
    using assms(2) by (rule prune_target_drop_formula)
  have sc: "prune_scored L m
      = sort_key (\<lambda>mid. composite_score m (the (map_of (mem m) mid)))
          (take (nat (prune_sample (cfg m))) ?shuffled)"
    by (simp add: prune_scored_def sampled)
  note p = prune_if_needed_over [OF assms(1) sub]
  have tk: "tick (foldl remove_memory m' ks) = tick m'" for m' ks
    by (induction ks arbitrary: m') (simp_all add: remove_memory_def Let_def record_event_def split: option.splits)
  have c1: "fst (prune_if_needed L m) = None"
    by (simp add: p)
  have c2: "mem (snd (prune_if_needed L m))
        = filter (\<lambda>(k, ms). k \<notin> set (take (nat ?target)
               (sort_key (\<lambda>mid. composite_score m (the (map_of (mem m) mid)))
                  (take (nat (prune_sample (cfg m))) ?shuffled)))) (mem m)"
    unfolding p t [symmetric] by (simp add: mem_foldl_remove_memory sc)
  have c3: "last (events (snd (prune_if_needed L m)))
        = [(''count'', JInt ?target), (''type'', JString ''prune''), (''tick'', JInt (tick m))]"
    unfolding p t [symmetric] by (simp add: record_event_def last_dq_append tk)
  from c1 c2 c3 show ?thesis by blast
qed


lemma twelve_facts:
  "capacity (cfg manager_twelve) = 10" "prune_target_ratio (cfg manager_twelve) = 1"
  "prune_sample (cfg manager_twelve) = 32" "tick manager_twelve = 1" "rng manager_twelve = 7"
  "length (mem manager_twelve) = 12"
  "map fst (mem manager_twelve) = [''m01'', ''m02'', ''m03'', ''m04'', ''m05'', ''m06'',
                ''m07'', ''m08'', ''m09'', ''m10'', ''m11'', ''m12'']"
  by (simp_all add: manager_twelve_def fresh_manager_def config0_def lib0_def)

lemma twelve_shuffle:
  "fst (rng_shuffle lib0 (rng manager_twelve) (map fst (mem manager_twelve)))
     = [''m12'', ''m11'', ''m10'', ''m09'', ''m08'', ''m07'', ''m06'', ''m05'', ''m04'', ''m03'', ''m02'', ''m01'']"
  unfolding twelve_facts by (simp add: lib0_def)

lemma twelve_ratio: "float_round 0.05 \<le> float_round (prune_target_ratio (cfg manager_twelve))"
  unfolding twelve_facts float_round_1 float_round_0_05 by simp

lemma twelve_target: "prune_target_drop manager_twelve = 1"
  unfolding prune_target_drop_formula [OF twelve_ratio] twelve_facts of_nat_numeral twelve_float_count
  by simp

theorem prune_removes_lowest_of_sample_witness:
  "capacity (cfg manager_twelve) < int (length (mem manager_twelve))
   \<and> float_round 0.05 \<le> float_round (prune_target_ratio (cfg manager_twelve))
   \<and> set (fst (rng_shuffle lib0 (rng manager_twelve) (map fst (mem manager_twelve))))
        \<subseteq> fst ` set (mem manager_twelve)
   \<and> 10 \<le> capacity (cfg manager_twelve) \<and> length (mem manager_twelve) < 2 ^ 63
   \<and> fst (prune_if_needed lib0 manager_twelve) = None
   \<and> last (events (snd (prune_if_needed lib0 manager_twelve)))
        = [(''count'', JInt 1), (''type'', JString ''prune''), (''tick'', JInt 1)]"
proof -
  have h1: "capacity (cfg manager_twelve) < int (length (mem manager_twelve))"
    by (simp add: twelve_facts)
  have h2: "float_round 0.05 \<le> float_round (prune_target_ratio (cfg manager_twelve))"
    by (rule twelve_ratio)
  have h3: "set (fst (rng_shuffle lib0 (rng manager_twelve) (map fst (mem manager_twelve))))
        \<subseteq> fst ` set (mem manager_twelve)"
    unfolding twelve_shuffle by (simp add: manager_twelve_def)
  have h4: "10 \<le> capacity (cfg manager_twelve)"
    by (simp add: twelve_facts)
  have h5: "length (mem manager_twelve) < 2 ^ 63"
    by (simp add: twelve_facts)
  have f: "\<lfloor>max 1 (float_sub
                (float_mul (float_of_int (int (length (mem manager_twelve))))
                           (min (float_round (prune_target_ratio (cfg manager_twelve))) (float_round 0.95)))
                (float_of_int (capacity (cfg manager_twelve))))\<rfloor> = 1"
    unfolding twelve_facts of_nat_numeral by (rule twelve_float_count)
  from prune_removes_lowest_of_sample [OF h1 h2 h3 h4 h5]
  have "fst (prune_if_needed lib0 manager_twelve) = None
     \<and> last (events (snd (prune_if_needed lib0 manager_twelve)))
        = [(''count'', JInt 1), (''type'', JString ''prune''), (''tick'', JInt 1)]"
    unfolding f by (simp add: twelve_facts)
  with h1 h2 h3 h4 h5 show ?thesis by blast
qed

text \<open>
  The constructor accepts \<open>prune_target_ratio = 1.0\<close>. With twelve traces and capacity
  ten the formula of the claim gives 2 for that ratio (in floats as over the reals: the
  product 12.0 and the difference 2.0 are exact); the prune step clamps the ratio to
  \<open>0.95\<close> first and reports 1.
\<close>

theorem prune_configured_ratio_counterexample:
  "prune_target_ratio (cfg manager_twelve) = 1 \<and> length (mem manager_twelve) = 12
   \<and> capacity (cfg manager_twelve) = 10
   \<and> max 1 (min (12 - 10) \<lfloor>max 1 (12 * (1::real) - 10)\<rfloor>) = (2::int)
   \<and> fst (prune_if_needed lib0 manager_twelve) = None
   \<and> last (events (snd (prune_if_needed lib0 manager_twelve)))
        = [(''count'', JInt 1), (''type'', JString ''prune''), (''tick'', JInt 1)]"
proof -
  have h1: "capacity (cfg manager_twelve) < int (length (mem manager_twelve))"
    by (simp add: twelve_facts)
  have "set (prune_sampled lib0 manager_twelve)
          \<subseteq> set (fst (rng_shuffle lib0 (rng manager_twelve) (map fst (mem manager_twelve))))"
    by (simp add: prune_sampled_def Let_def set_take_subset)
  also have "\<dots> \<subseteq> fst ` set (mem manager_twelve)"
    unfolding twelve_shuffle by (simp add: manager_twelve_def)
  finally have "set (prune_sampled lib0 manager_twelve) \<subseteq> fst ` set (mem manager_twelve)" .
  from prune_if_needed_over [OF h1 this]
  have p: "prune_if_needed lib0 manager_twelve
     = (None, record_event ''prune'' [(''count'', JInt 1)]
          (foldl remove_memory (manager_twelve\<lparr>rng := snd (rng_shuffle lib0 (rng manager_twelve) (map fst (mem manager_twelve)))\<rparr>)
             (take (nat 1) (prune_scored lib0 manager_twelve))))"
    by (simp add: twelve_target)
  have tk: "tick (foldl remove_memory m' ks) = tick m'" for m' ks
    by (induction ks arbitrary: m') (simp_all add: remove_memory_def Let_def record_event_def split: option.splits)
  have e: "last (events (snd (prune_if_needed lib0 manager_twelve)))
        = [(''count'', JInt 1), (''type'', JString ''prune''), (''tick'', JInt 1)]"
    unfolding p by (simp add: record_event_def last_dq_append tk twelve_facts)
  have a: "max 1 (min (12 - 10) \<lfloor>max 1 (12 * (1::real) - 10)\<rfloor>) = (2::int)"
    by simp
  from a e show ?thesis
    by (simp add: twelve_facts p)
qed


section \<open>Errors that leave \<open>load_json\<close>\<close>

lemma str_of_int_10: "str_of_int 10 = ''10''"
  by code_simp

text \<open>
  Claim C3 does not hold of the code. \<open>load_json\<close> guards the file access and the call of
  \<open>populate_manager_from_dict\<close>, but \<open>payload.get\<close>, \<open>sanitize_config\<close> and the
  constructor run between the two guarded blocks: a snapshot whose \<open>config\<close> holds
  \<open>capacity = 5\<close> makes the constructor's \<open>ValueError\<close> leave \<open>load_json\<close>; so does the
  \<open>AttributeError\<close> of a document that is not an object, and the decoding error of a
  file that is not UTF-8.
\<close>

theorem load_json_raises_on_invalid_config:
  "load_json lib0 0 ''snapshot.json'' files_bad_config = Inl (ValueError ''capacity must be >= 10'')
   \<and> load_json lib0 0 ''list.json'' files_bad_config = Inl (AttributeError ''get'')
   \<and> load_json lib0 0 ''latin1.json'' files_bad_config = Inl (ValueError ''UnicodeDecodeError'')"
proof -
  have s: "sanitize_config (JObject [(''capacity'', JInt 5)])
      = Inr (AList.update ''capacity'' (JInt 5) config_defaults)"
    by (simp add: sanitize_config_def)
  have k: "kwarg (AList.update ''capacity'' (JInt 5) config_defaults) ''capacity'' = JInt 5"
    by (simp add: kwarg_def update_conv')
  have v: "validate_config lib0 (AList.update ''capacity'' (JInt 5) config_defaults)
      = Inl (ValueError ''capacity must be >= 10'')"
    by (simp add: validate_config_def k require_int_def bindE_def str_of_int_10)
  have n: "new_manager lib0 0 (AList.update ''capacity'' (JInt 5) config_defaults)
      = Inl (ValueError ''capacity must be >= 10'')"
    unfolding new_manager_def v
    by (simp add: bindE_def param_names_def required_params_def config_defaults_def)
  have c1: "load_json lib0 0 ''snapshot.json'' files_bad_config = Inl (ValueError ''capacity must be >= 10'')"
    by (simp add: load_json_def files_bad_config_def bindE_def s n)
  have c2: "load_json lib0 0 ''list.json'' files_bad_config = Inl (AttributeError ''get'')"
    by (simp add: load_json_def files_bad_config_def bindE_def)
  have c3: "load_json lib0 0 ''latin1.json'' files_bad_config = Inl (ValueError ''UnicodeDecodeError'')"
    by (simp add: load_json_def files_bad_config_def)
  from c1 c2 c3 show ?thesis by blast
qed

section \<open>Validation inside the reinforcement loop\<close>

text \<open>Differing row counts are found before anything is changed.\<close>

lemma reinforce_row_count_mismatch:
  "length ids_rows \<noteq> length dist_rows \<Longrightarrow>
     reinforce L (Some ids_rows) (Some dist_rows) heat_gain ttl_boost m
       = (Some (ValueError ''ids and distances rows must align''), m)"
  by (simp add: reinforce_def)

text \<open>
  Claim C4 does not hold of the code for a row whose lengths differ: the check sits
  inside the loop over the rows, so the rows before it have already been applied when
  \<open>ValueError\<close> is raised. Here the first row is applied (trace \<open>a\<close>, the reward average
  and the event log change) and the second row fails the call; the tick is not
  advanced and the maintenance does not run.
\<close>

theorem reinforce_row_mismatch_after_mutation:
  "reinforce lib0 (Some [[''a''], [''a'', ''b'']]) (Some [[0.1], [0.1]]) 0.8 180 manager0
     = (Some (ValueError ''ids_row and dist_row must align''),
        manager0\<lparr>
          mem := [(''a'', (trace0 0.5)\<lparr>ttl := 180, use_count := 1, mass := 2.62, heat := 0.8,
                            confidence := 0.5255, novelty := 0.46, boredom := 0.02, inhibition := 0.05\<rparr>),
                  (''b'', trace0 0.25)],
          events := [[(''count'', JInt 1), (''type'', JString ''reinforce''), (''tick'', JInt 0)]],
          reward_ema := 0.045\<rparr>)"
  by (simp add: reinforce_def reinforce_row_def resolve_row_def Let_def inhibit_def
      update_pair_metrics_def List.map_filter_def trace0_def apply_reinforcement_def
      record_member_distance_def reinforce_trace_def boredom_increment_def clamp_ranges_def
      clamp01_def frontier_accounting_def condensation_check_def record_event_def dq_append_def
      manager0_def fresh_manager_def config0_def)


section \<open>Reproducibility from the seed\<close>

lemma validate_config_seed:
  "validate_config L args = Inr c \<Longrightarrow> seed_arg (kwarg args ''seed'') = Inr (seed c)"
  by (auto simp: validate_config_def bindE_def split: sum.splits)

lemma seed_arg_not_None:
  "v \<noteq> JNull \<Longrightarrow> seed_arg v = Inr s \<Longrightarrow> s \<noteq> None"
  by (auto simp: seed_arg_def bindE_def split: sum.splits)

lemma fresh_manager_seeded:
  "seed c \<noteq> None \<Longrightarrow> fresh_manager L e1 c = fresh_manager L e2 c"
  by (auto simp: fresh_manager_def)

lemma new_manager_seeded:
  assumes "kwarg args ''seed'' \<noteq> JNull"
  shows "new_manager L e1 args = new_manager L e2 args"
proof (cases "validate_config L args")
  case (Inl err)
  then show ?thesis by (simp add: new_manager_def bindE_def)
next
  case (Inr c)
  from validate_config_seed [OF Inr] assms have "seed c \<noteq> None"
    by (metis seed_arg_not_None)
  then have "fresh_manager L e1 c = fresh_manager L e2 c"
    by (rule fresh_manager_seeded)
  with Inr show ?thesis by (simp add: new_manager_def bindE_def)
qed

text \<open>
  Claim C2. Two managers constructed with the same keyword arguments, the seed among
  them, and driven with the same sequence of public calls have equal snapshots (or the
  constructor raises the same exception for both), whatever entropy the operating
  system offers to either: the generator is seeded from the seed alone, and every
  operation is a function of the manager's state, its arguments and the library.
\<close>

theorem same_seed_same_snapshot:
  assumes "kwarg args ''seed'' \<noteq> JNull"
  shows "run_snapshot L entropy_a args ops = run_snapshot L entropy_b args ops"
  using new_manager_seeded [OF assms, of L entropy_a entropy_b] by (simp add: run_snapshot_def)

theorem same_seed_same_snapshot_witness:
  "kwarg args_seeded ''seed'' \<noteq> JNull
   \<and> run_snapshot lib0 1 args_seeded ops_example = run_snapshot lib0 2 args_seeded ops_example"
proof -
  have h: "kwarg args_seeded ''seed'' \<noteq> JNull"
    by (simp add: kwarg_def args_seeded_def)
  from h same_seed_same_snapshot [OF h, where L = lib0 and entropy_a = 1 and entropy_b = 2 and ops = ops_example]
  show ?thesis by blast
qed

text \<open>Without a seed the generator starts from the entropy, which the two managers do not share.\<close>

lemma unseeded_generator_is_entropy:
  "seed c = None \<Longrightarrow> rng (fresh_manager L entropy c) = rng_seed L entropy"
  by (simp add: fresh_manager_def)


section \<open>An invariant rule for the public calls\<close>

text \<open>
  Every public call is built from the same few state changes. The lemmas of this
  section lift a property of those changes through the loops, the maintenance cadence
  and the mutual recursion of \<open>register_chunks\<close> and the condensation callback.
\<close>

lemma foldl_preserves:
  assumes "\<And>s x. P s \<Longrightarrow> P (f s x)" and "P s"
  shows "P (foldl f s xs)"
  using assms(2) by (induction xs arbitrary: s) (simp_all add: assms(1))

lemma after_operation_preserves:
  assumes tick: "\<And>m t. Q m \<Longrightarrow> Q (m\<lparr>tick := t\<rparr>)"
    and decay: "\<And>m. Q m \<Longrightarrow> Q (decay_pass m)"
    and prune: "\<And>m. Q m \<Longrightarrow> Q (snd (prune_if_needed L m))"
    and diffuse: "\<And>m. Q m \<Longrightarrow> Q (snd (maybe_diffuse L m))"
    and temp: "\<And>m x. Q m \<Longrightarrow> Q (m\<lparr>exploration_temp := x\<rparr>)"
    and "Q m"
  shows "Q (snd (after_operation L m))"
proof -
  let ?d = "decay_pass (m\<lparr>tick := tick m + 1\<rparr>)"
  have d: "Q ?d" using assms(6) by (simp add: tick decay)
  then have p: "Q (snd (prune_if_needed L ?d))" by (rule prune)
  then have f: "Q (snd (maybe_diffuse L (snd (prune_if_needed L ?d))))" by (rule diffuse)
  then have t: "Q ((snd (maybe_diffuse L (snd (prune_if_needed L ?d))))\<lparr>exploration_temp := x\<rparr>)" for x
    by (rule temp)
  show ?thesis
    using p f t by (simp add: after_operation_def Let_def case_prod_beta split: option.splits)
qed

lemma register_loop_preserves:
  assumes regmem: "\<And>L m k t e meta m'. P m \<Longrightarrow> map_of (mem m) k = None
            \<Longrightarrow> register_memory L m k t e meta = Inr m' \<Longrightarrow> P m'"
    and "P m"
  shows "P (snd (snd (register_loop L rows added m)))"
  using assms(2)
proof (induction L rows added m rule: register_loop.induct)
  case (1 L added m)
  then show ?case by simp
next
  case (2 L memory_id tx emb meta rest added m)
  show ?case
  proof (cases "map_of (mem m) memory_id")
    case (Some ms)
    with 2 show ?thesis by simp
  next
    case None
    show ?thesis
    proof (cases "register_memory L m memory_id tx (map_option normalize_embedding emb) meta")
      case (Inl e)
      with None 2 show ?thesis by simp
    next
      case (Inr m1)
      from regmem [OF "2.prems" None Inr] have "P m1" .
      with 2 None Inr show ?thesis by simp
    qed
  qed
qed

lemma register_locked_preserves:
  assumes QP: "\<And>m. Q m \<Longrightarrow> P m"
    and loop: "\<And>rows added m. P m \<Longrightarrow> P (snd (snd (register_loop L rows added m)))"
    and flush: "\<And>m. P m \<Longrightarrow> Q (snd (flush_condensation_locked m))"
    and after: "\<And>m. Q m \<Longrightarrow> Q (snd (after_operation L m))"
    and "P m"
  shows "P (snd (snd (snd (register_locked L rows m))))"
proof -
  let ?l = "register_loop L rows False m"
  have l: "P (snd (snd ?l))" using assms(5) by (rule loop)
  then have "Q (snd (after_operation L (snd (flush_condensation_locked (snd (snd ?l))))))"
    by (simp add: flush after)
  then have a: "P (snd (after_operation L (snd (flush_condensation_locked (snd (snd ?l))))))"
    by (rule QP)
  show ?thesis
    using l a by (simp add: register_locked_def Let_def case_prod_beta split: option.splits)
qed

lemma register_chunks_preserves:
  assumes locked: "\<And>L rows m. P m \<Longrightarrow> P (snd (snd (snd (register_locked L rows m))))"
  shows "P m \<Longrightarrow> P (snd (register_chunks L ids raw_texts embeddings metas m))"
    and "P m' \<Longrightarrow> P (snd (run_condense_callback L' pending m'))"
proof (induction L ids raw_texts embeddings metas m and L' pending m'
    rule: register_chunks_run_condense_callback.induct)
  case (1 L ids raw_texts embeddings metas m)
  let ?el = "case embeddings of None \<Rightarrow> replicate (length ids) None | Some es \<Rightarrow> es"
  let ?ml = "case metas of None \<Rightarrow> replicate (length ids) JNull | Some ms \<Rightarrow> ms"
  let ?locked = "register_locked L (zip ids (zip raw_texts (zip ?el ?ml))) m"
  have l: "P (snd (snd (snd ?locked)))"
    using "1.prems" by (rule locked)
  show ?case
  proof (cases "length ids \<noteq> length raw_texts
      \<or> (embeddings \<noteq> None \<and> length (the embeddings) \<noteq> length ids)
      \<or> (metas \<noteq> None \<and> length (the metas) \<noteq> length ids)")
    case True
    then show ?thesis
      using "1.prems" by (subst register_chunks.simps) auto
  next
    case valid: False
    show ?thesis
    proof (cases "fst ?locked \<noteq> None \<or> \<not> fst (snd ?locked)")
      case True
      then show ?thesis
        using valid l by (subst register_chunks.simps) (auto simp: Let_def)
    next
      case False
      from valid False l
      have "P (snd (run_condense_callback L (fst (snd (snd ?locked))) (snd (snd (snd ?locked)))))"
        by (intro "1.IH") auto
      then show ?thesis
        using valid False by (subst register_chunks.simps) (auto simp: Let_def)
    qed
  qed
next
  case (2 L pending m)
  show ?case
  proof (cases "the (condense_callback m) (map snd pending)")
    case CbNone
    then show ?thesis
      using "2.prems" by (subst run_condense_callback.simps) simp
  next
    case (CbSummary summary_id tx)
    show ?thesis
    proof (cases "pending = [] \<or> condense_callback m = None")
      case True
      then show ?thesis
        using "2.prems" by (subst run_condense_callback.simps) auto
    next
      case False
      with CbSummary "2.prems" have "P (snd (register_chunks L [summary_id] [tx] None None m))"
        by (intro "2.IH") auto
      with False CbSummary show ?thesis
        by (subst run_condense_callback.simps) auto
    qed
  next
    case CbRaises
    then show ?thesis
      using "2.prems" by (subst run_condense_callback.simps) simp
  qed
qed


lemma decay_pass_preserves:
  assumes traces: "\<And>m f. Q m \<Longrightarrow> Q (m\<lparr>mem := map (\<lambda>(k, ms). (k, decay_trace f ms)) (mem m)\<rparr>)"
    and remove: "\<And>m k. Q m \<Longrightarrow> Q (remove_memory m k)"
    and "Q m"
  shows "Q (decay_pass m)"
  unfolding decay_pass_def Let_def
  by (rule foldl_preserves [where P = Q]) (simp_all add: remove traces assms(3))

lemma prune_if_needed_preserves:
  assumes rng: "\<And>m r. Q m \<Longrightarrow> Q (m\<lparr>rng := r\<rparr>)"
    and remove: "\<And>m k. Q m \<Longrightarrow> Q (remove_memory m k)"
    and event: "\<And>m t p. Q m \<Longrightarrow> Q (record_event t p m)"
    and "Q m"
  shows "Q (snd (prune_if_needed L m))"
proof -
  have "Q (foldl remove_memory (m\<lparr>rng := r\<rparr>) ks)" for r ks
    by (rule foldl_preserves [where P = Q]) (simp_all add: remove rng assms(4))
  then show ?thesis
    by (simp add: prune_if_needed_def Let_def event rng assms(4))
qed

lemma diffuse_loop_preserves:
  assumes rng: "\<And>m r. Q m \<Longrightarrow> Q (m\<lparr>rng := r\<rparr>)"
    and merge: "\<And>m a b. Q m \<Longrightarrow> Q (merge_territories m a b)"
  shows "Q m \<Longrightarrow> Q (snd (diffuse_loop L ps m))"
  by (induction L ps m rule: diffuse_loop.induct)
     (auto simp: Let_def rng merge split: option.splits sum.splits)

lemma maybe_diffuse_preserves:
  assumes rng: "\<And>m r. Q m \<Longrightarrow> Q (m\<lparr>rng := r\<rparr>)"
    and merge: "\<And>m a b. Q m \<Longrightarrow> Q (merge_territories m a b)"
    and "Q m"
  shows "Q (snd (maybe_diffuse L m))"
  using diffuse_loop_preserves [of Q, OF rng merge assms(3)] assms(3)
  by (simp add: maybe_diffuse_def)

lemma reinforce_states_preserves:
  assumes applied: "\<And>m mid sim hg tb. P m \<Longrightarrow> P (snd (apply_reinforcement m mid sim hg tb))"
    and frontier: "\<And>L m mid. P m \<Longrightarrow> P (frontier_accounting L m mid)"
    and cond: "\<And>m mid. P m \<Longrightarrow> P (condensation_check m mid)"
  shows "P m \<Longrightarrow> P (snd (reinforce_states L hg tb rs m))"
proof (induction L hg tb rs m rule: reinforce_states.induct)
  case (1 L heat_gain ttl_boost m)
  then show ?case by simp
next
  case (2 L heat_gain ttl_boost mid sim rest m)
  from "2.prems" have a: "P (snd (apply_reinforcement m mid sim heat_gain ttl_boost))"
    by (rule applied)
  show ?case
  proof (cases "apply_reinforcement m mid sim heat_gain ttl_boost")
    case (Pair e m1)
    show ?thesis
    proof (cases e)
      case None
      from a Pair have "P (condensation_check (frontier_accounting L m1 mid) mid)"
        by (simp add: frontier cond)
      with Pair None "2.IH" show ?thesis by simp
    next
      case (Some err)
      with a Pair show ?thesis by simp
    qed
  qed
qed

lemma reinforce_row_preserves:
  assumes inhibit: "\<And>m k. P m \<Longrightarrow> P (inhibit m k)"
    and pairs: "\<And>m ab. P m \<Longrightarrow> P (pair_step m ab)"
    and reward: "\<And>m x. P m \<Longrightarrow> P (m\<lparr>reward_ema := x\<rparr>)"
    and states: "\<And>L hg tb rs m. P m \<Longrightarrow> P (snd (reinforce_states L hg tb rs m))"
    and event: "\<And>m t p. P m \<Longrightarrow> P (record_event t p m)"
    and "P m"
  shows "P (snd (reinforce_row L hg tb ids ds m))"
proof -
  let ?st = "map fst (resolve_row m ids ds)"
  have i: "P (foldl inhibit m ?st)"
    by (rule foldl_preserves [where P = P]) (simp_all add: inhibit assms(6))
  have u: "P (update_pair_metrics (foldl inhibit m ?st) ?st)"
    unfolding update_pair_metrics_def Let_def
    by (rule foldl_preserves [where P = P]) (simp_all add: pairs i)
  have s: "P (snd (reinforce_states L hg tb (resolve_row m ids ds)
                  ((update_pair_metrics (foldl inhibit m ?st) ?st)\<lparr>reward_ema := x\<rparr>)))" for x
    by (simp add: states reward u)
  show ?thesis
    using s assms(6) by (simp add: reinforce_row_def Let_def case_prod_beta event split: option.splits)
qed

lemma reinforce_rows_preserves:
  assumes row: "\<And>L hg tb ids ds m. P m \<Longrightarrow> P (snd (reinforce_row L hg tb ids ds m))"
  shows "P m \<Longrightarrow> P (snd (reinforce_rows L hg tb rows m))"
proof (induction L hg tb rows m rule: reinforce_rows.induct)
  case (1 L heat_gain ttl_boost m)
  then show ?case by simp
next
  case (2 L heat_gain ttl_boost ids_row dist_row rest m)
  from "2.prems" have a: "P (snd (reinforce_row L heat_gain ttl_boost ids_row dist_row m))"
    by (rule row)
  show ?case
  proof (cases "reinforce_row L heat_gain ttl_boost ids_row dist_row m")
    case (Pair e m1)
    with a 2 show ?thesis by (cases e) auto
  qed
qed

lemma reinforce_preserves:
  assumes QP: "\<And>m. Q m \<Longrightarrow> P m"
    and rows: "\<And>L hg tb rows m. P m \<Longrightarrow> P (snd (reinforce_rows L hg tb rows m))"
    and flush: "\<And>m. P m \<Longrightarrow> Q (snd (flush_condensation_locked m))"
    and after: "\<And>L m. Q m \<Longrightarrow> Q (snd (after_operation L m))"
    and callback: "\<And>L pending m. P m \<Longrightarrow> P (snd (run_condense_callback L pending m))"
    and "P m"
  shows "P (snd (reinforce L ir dr hg tb m))"
proof -
  have r: "P (snd (reinforce_rows L hg tb rows m))" for rows
    using assms(6) by (rule rows)
  have f: "P (snd (after_operation L (snd (flush_condensation_locked (snd (reinforce_rows L hg tb rows m))))))" for rows
    by (simp add: QP after flush r)
  have c: "P (snd (run_condense_callback L pend
      (snd (after_operation L (snd (flush_condensation_locked (snd (reinforce_rows L hg tb rows m))))))))" for rows pend
    using f by (rule callback)
  show ?thesis
    using assms(6) r f c by (simp add: reinforce_def Let_def case_prod_beta split: option.splits)
qed

lemma degrade_preserves:
  assumes step: "\<And>m k ms fl. P m \<Longrightarrow> map_of (mem m) k = Some ms
            \<Longrightarrow> P (m\<lparr>mem := AList.update k (degrade_trace fl ms) (mem m)\<rparr>)"
    and event: "\<And>m t p. P m \<Longrightarrow> P (record_event t p m)"
    and "P m"
  shows "P (snd (degrade ids fl m))"
proof -
  have l: "P m \<Longrightarrow> P (snd (degrade_loop fl' ids c m))" for fl' c m
    by (induction fl' ids c m rule: degrade_loop.induct) (auto simp: step split: option.splits)
  show ?thesis
    using l [OF assms(3)] assms(3) by (simp add: degrade_def Let_def event split: sum.splits)
qed

lemma register_engram_preserves:
  assumes table: "\<And>m k v. P m \<Longrightarrow> P (m\<lparr>engrams := AList.update k v (engrams m)\<rparr>)"
    and member: "\<And>m k. P m \<Longrightarrow> P (engram_member m k)"
    and event: "\<And>m t p. P m \<Longrightarrow> P (record_event t p m)"
    and "P m"
  shows "P (snd (register_engram sid ids t m))"
proof -
  have "P (foldl engram_member (m\<lparr>engrams := AList.update sid v (engrams m)\<rparr>) ks)" for v ks
    by (rule foldl_preserves [where P = P]) (simp_all add: member table assms(4))
  then show ?thesis
    using assms(4) by (simp add: register_engram_def Let_def event)
qed

text \<open>
  The invariant rule. \<open>P\<close> is to hold between public calls, \<open>Q\<close> (at least as strong)
  while the maintenance cadence runs, which is always entered right after the
  condensation queue has been drained.
\<close>

lemma public_calls_preserve:
  assumes QP: "\<And>m. Q m \<Longrightarrow> P m"
    and flush: "\<And>m. P m \<Longrightarrow> Q (snd (flush_condensation_locked m))"
    and q_tick: "\<And>m t. Q m \<Longrightarrow> Q (m\<lparr>tick := t\<rparr>)"
    and q_decay: "\<And>m f. Q m \<Longrightarrow> Q (m\<lparr>mem := map (\<lambda>(k, ms). (k, decay_trace f ms)) (mem m)\<rparr>)"
    and q_remove: "\<And>m k. Q m \<Longrightarrow> Q (remove_memory m k)"
    and q_rng: "\<And>m r. Q m \<Longrightarrow> Q (m\<lparr>rng := r\<rparr>)"
    and q_event: "\<And>m t p. Q m \<Longrightarrow> Q (record_event t p m)"
    and q_merge: "\<And>m a b. Q m \<Longrightarrow> Q (merge_territories m a b)"
    and q_temp: "\<And>m x. Q m \<Longrightarrow> Q (m\<lparr>exploration_temp := x\<rparr>)"
    and p_register: "\<And>L m k t e meta m'. P m \<Longrightarrow> map_of (mem m) k = None
            \<Longrightarrow> register_memory L m k t e meta = Inr m' \<Longrightarrow> P m'"
    and p_inhibit: "\<And>m k. P m \<Longrightarrow> P (inhibit m k)"
    and p_pairs: "\<And>m ab. P m \<Longrightarrow> P (pair_step m ab)"
    and p_reward: "\<And>m x. P m \<Longrightarrow> P (m\<lparr>reward_ema := x\<rparr>)"
    and p_apply: "\<And>m mid sim hg tb. P m \<Longrightarrow> P (snd (apply_reinforcement m mid sim hg tb))"
    and p_frontier: "\<And>L m mid. P m \<Longrightarrow> P (frontier_accounting L m mid)"
    and p_cond: "\<And>m mid. P m \<Longrightarrow> P (condensation_check m mid)"
    and p_event: "\<And>m t p. P m \<Longrightarrow> P (record_event t p m)"
    and p_degrade: "\<And>m k ms fl. P m \<Longrightarrow> map_of (mem m) k = Some ms
            \<Longrightarrow> P (m\<lparr>mem := AList.update k (degrade_trace fl ms) (mem m)\<rparr>)"
    and p_engrams: "\<And>m k v. P m \<Longrightarrow> P (m\<lparr>engrams := AList.update k v (engrams m)\<rparr>)"
    and p_member: "\<And>m k. P m \<Longrightarrow> P (engram_member m k)"
    and p_events: "\<And>m v. P m \<Longrightarrow> P (m\<lparr>events := v\<rparr>)"
    and p_callback: "\<And>m c. P m \<Longrightarrow> P (m\<lparr>condense_callback := c\<rparr>)"
    and "P m"
  shows "P (apply_op L c m)"
proof -
  have after: "Q m \<Longrightarrow> Q (snd (after_operation L m))" for L m
    by (rule after_operation_preserves [where Q = Q])
       (simp_all add: q_tick q_temp
          decay_pass_preserves [where Q = Q, OF q_decay q_remove]
          prune_if_needed_preserves [where Q = Q, OF q_rng q_remove q_event]
          maybe_diffuse_preserves [where Q = Q, OF q_rng q_merge])
  have loop: "P m \<Longrightarrow> P (snd (snd (register_loop L rows added m)))" for L rows added m
    by (rule register_loop_preserves [where P = P, OF p_register])
  have locked: "P m \<Longrightarrow> P (snd (snd (snd (register_locked L rows m))))" for L rows m
    by (rule register_locked_preserves [where P = P and Q = Q, OF QP loop flush after])
  note chunks = register_chunks_preserves [where P = P, OF locked]
  have states: "P m \<Longrightarrow> P (snd (reinforce_states L hg tb rs m))" for L hg tb rs m
    by (rule reinforce_states_preserves [where P = P, OF p_apply p_frontier p_cond])
  have row: "P m \<Longrightarrow> P (snd (reinforce_row L hg tb ids ds m))" for L hg tb ids ds m
    by (rule reinforce_row_preserves [where P = P, OF p_inhibit p_pairs p_reward states p_event])
  have rows: "P m \<Longrightarrow> P (snd (reinforce_rows L hg tb rs m))" for L hg tb rs m
    by (rule reinforce_rows_preserves [where P = P, OF row])
  have reinf: "P m \<Longrightarrow> P (snd (reinforce L ir dr hg tb m))" for L ir dr hg tb m
    by (rule reinforce_preserves [where P = P and Q = Q, OF QP rows flush after chunks(2)])
  have degr: "P m \<Longrightarrow> P (snd (degrade ids fl m))" for ids fl m
    by (rule degrade_preserves [where P = P, OF p_degrade p_event])
  have engr: "P m \<Longrightarrow> P (snd (register_engram sid ids t m))" for sid ids t m
    by (rule register_engram_preserves [where P = P, OF p_engrams p_member p_event])
  show ?thesis
    using assms(23)
    by (cases c)
       (simp_all add: chunks(1) reinf degr engr p_events p_callback
          top_def composite_score_for_def exploratory_weight_def stats_def
          consume_events_def peek_events_def set_condense_callback_def to_dict_def Let_def
          split: option.splits)
qed


lemma run_ops_preserves:
  assumes "\<And>m c. P m \<Longrightarrow> P (apply_op L c m)" and "P m"
  shows "P (run_ops L ops m)"
  unfolding run_ops_def by (rule foldl_preserves [where P = P]) (simp_all add: assms)


section \<open>The adaptive radius \<open>\<tau>\<close>\<close>

lemma tau_rel_refl [simp]: "tau_rel m m"
  by (simp add: tau_rel_def)

lemma clamp_real_range: "lo \<le> hi \<Longrightarrow> lo \<le> clamp_real v lo hi \<and> clamp_real v lo hi \<le> hi"
  by (simp add: clamp_real_def)

lemma tau_consistent_range: "tau_consistent m \<Longrightarrow> tau_in_range m"
  using clamp_real_range [of "0.05" "0.6" "median (nn_distances m)"]
  by (simp add: tau_consistent_def tau_in_range_def)

lemma tau_rel_in_range: "tau_rel m m' \<Longrightarrow> tau_in_range m \<Longrightarrow> tau_in_range m'"
  by (auto simp: tau_rel_def tau_in_range_def dest: tau_consistent_range)

lemma tau_rel_inv: "tau_rel m m' \<Longrightarrow> tau_inv m \<Longrightarrow> tau_inv m'"
proof -
  assume r: "tau_rel m m'" and i: "tau_inv m"
  show "tau_inv m'"
  proof (cases "tau_consistent m'")
    case True
    with tau_consistent_range [OF True] show ?thesis
      by (simp add: tau_inv_def tau_consistent_def)
  next
    case False
    with r have "nn_distances m' = nn_distances m" "territory_tau m' = territory_tau m"
      by (auto simp: tau_rel_def)
    with i show ?thesis by (simp add: tau_inv_def tau_in_range_def)
  qed
qed

lemma length_dq_append: "length (dq_append n xs x) \<le> n"
  by (simp add: dq_append_def Let_def)

lemma dq_append_nonempty: "0 < n \<Longrightarrow> dq_append n xs x \<noteq> []"
  by (simp add: dq_append_def Let_def)

lemma tau_rel_update [simp]:
  "tau_rel m0 (m\<lparr>cfg := v1\<rparr>) = tau_rel m0 (m)"
  "tau_rel m0 (m\<lparr>rng := v2\<rparr>) = tau_rel m0 (m)"
  "tau_rel m0 (m\<lparr>mem := v3\<rparr>) = tau_rel m0 (m)"
  "tau_rel m0 (m\<lparr>tick := v4\<rparr>) = tau_rel m0 (m)"
  "tau_rel m0 (m\<lparr>events := v5\<rparr>) = tau_rel m0 (m)"
  "tau_rel m0 (m\<lparr>territory_centroids := v6\<rparr>) = tau_rel m0 (m)"
  "tau_rel m0 (m\<lparr>territory_counts := v7\<rparr>) = tau_rel m0 (m)"
  "tau_rel m0 (m\<lparr>territory_member_dists := v8\<rparr>) = tau_rel m0 (m)"
  "tau_rel m0 (m\<lparr>next_territory_id := v9\<rparr>) = tau_rel m0 (m)"
  "tau_rel m0 (m\<lparr>deterministic_ids := v10\<rparr>) = tau_rel m0 (m)"
  "tau_rel m0 (m\<lparr>reward_ema := v11\<rparr>) = tau_rel m0 (m)"
  "tau_rel m0 (m\<lparr>pair_churn := v12\<rparr>) = tau_rel m0 (m)"
  "tau_rel m0 (m\<lparr>pair_last := v13\<rparr>) = tau_rel m0 (m)"
  "tau_rel m0 (m\<lparr>exploration_temp := v14\<rparr>) = tau_rel m0 (m)"
  "tau_rel m0 (m\<lparr>pending_queue := v15\<rparr>) = tau_rel m0 (m)"
  "tau_rel m0 (m\<lparr>condense_callback := v16\<rparr>) = tau_rel m0 (m)"
  "tau_rel m0 (m\<lparr>engrams := v17\<rparr>) = tau_rel m0 (m)"
  "tau_rel m0 (m\<lparr>frontier := v18\<rparr>) = tau_rel m0 (m)"
  "tau_rel m0 (m\<lparr>split_counter := v19\<rparr>) = tau_rel m0 (m)"
  "tau_rel m0 (m\<lparr>merge_counter := v20\<rparr>) = tau_rel m0 (m)"
  by (simp_all add: tau_rel_def tau_consistent_def)

lemma tau_record_event [simp]: "tau_rel m0 m \<Longrightarrow> tau_rel m0 (record_event t p m)"
  by (simp add: record_event_def)

lemma tau_consistent_record_nn_distance: "tau_consistent (record_nn_distance m d)"
  using length_dq_append [of 5000 "nn_distances m" d] dq_append_nonempty [of 5000 "nn_distances m" d]
  by (simp add: tau_consistent_def record_nn_distance_def Let_def)

lemma tau_record_nn_distance [simp]: "tau_rel m0 (record_nn_distance m d)"
  by (simp add: tau_rel_def tau_consistent_record_nn_distance)

lemma tau_create_territory [simp]: "tau_rel m0 m \<Longrightarrow> tau_rel m0 (snd (create_territory L m e t))"
  by (simp add: create_territory_def Let_def)

lemma tau_deterministic_territory [simp]:
  "tau_rel m0 m \<Longrightarrow> tau_rel m0 (snd (deterministic_territory L m t))"
  by (simp add: deterministic_territory_def Let_def split: option.splits)

lemma tau_update_centroid [simp]: "tau_rel m0 m \<Longrightarrow> tau_rel m0 (update_centroid m tid e)"
  by (simp add: update_centroid_def Let_def split: option.splits)

lemma tau_assign_territory:
  "assign_territory L m t e = Inr r \<Longrightarrow> tau_rel m0 m \<Longrightarrow> tau_rel m0 (snd r)"
  by (auto simp: assign_territory_def Let_def bindE_def split: option.splits sum.splits if_splits)

lemma tau_merge_territories [simp]: "tau_rel m0 m \<Longrightarrow> tau_rel m0 (merge_territories m a b)"
  by (simp add: merge_territories_def Let_def split: option.splits)

lemma tau_split_loop [simp]:
  "tau_rel m0 m \<Longrightarrow> tau_rel m0 (snd (snd (split_loop new_tid cands csum cnt m)))"
  by (induction new_tid cands csum cnt m rule: split_loop.induct) (auto simp: Let_def)

lemma tau_maybe_split_territory [simp]:
  "tau_rel m0 m \<Longrightarrow> tau_rel m0 (maybe_split_territory L m mid)"
  by (auto simp: maybe_split_territory_def Let_def split: option.splits)

lemma tau_record_member_distance:
  "record_member_distance m mid sim = Inr m' \<Longrightarrow> tau_rel m0 m \<Longrightarrow> tau_rel m0 m'"
  by (auto simp: record_member_distance_def Let_def split: option.splits)

lemma tau_pair_step [simp]: "tau_rel m0 m \<Longrightarrow> tau_rel m0 (pair_step m ab)"
  by (simp add: pair_step_def Let_def)

lemma tau_remove_memory [simp]: "tau_rel m0 m \<Longrightarrow> tau_rel m0 (remove_memory m k)"
  by (simp add: remove_memory_def Let_def split: option.splits)

lemma tau_flush_step [simp]: "tau_rel m0 (snd acc) \<Longrightarrow> tau_rel m0 (snd (flush_step acc k))"
  by (simp add: flush_step_def split: option.splits)

lemma tau_flush [simp]: "tau_rel m0 m \<Longrightarrow> tau_rel m0 (snd (flush_condensation_locked m))"
proof -
  assume a: "tau_rel m0 m"
  have "tau_rel m0 (snd (foldl flush_step ([], m) ks))" for ks
    by (rule foldl_preserves [where P = "\<lambda>acc. tau_rel m0 (snd acc)"]) (simp_all add: a)
  with a show ?thesis
    by (simp add: flush_condensation_locked_def Let_def)
qed

lemma tau_register_memory:
  "register_memory L m k t e meta = Inr m' \<Longrightarrow> tau_rel m0 m \<Longrightarrow> tau_rel m0 m'"
  by (auto simp: register_memory_def bindE_def Let_def split: sum.splits dest: tau_assign_territory)

lemma tau_apply_reinforcement [simp]:
  "tau_rel m0 m \<Longrightarrow> tau_rel m0 (snd (apply_reinforcement m mid sim hg tb))"
  by (auto simp: apply_reinforcement_def Let_def split: sum.splits dest: tau_record_member_distance)

lemma tau_frontier_accounting [simp]: "tau_rel m0 m \<Longrightarrow> tau_rel m0 (frontier_accounting L m mid)"
  by (simp add: frontier_accounting_def Let_def split: option.splits)

lemma tau_condensation_check [simp]: "tau_rel m0 m \<Longrightarrow> tau_rel m0 (condensation_check m mid)"
  by (simp add: condensation_check_def Let_def split: option.splits)

lemma tau_apply_op: "tau_rel m0 m \<Longrightarrow> tau_rel m0 (apply_op L c m)"
  by (rule public_calls_preserve [where P = "tau_rel m0" and Q = "tau_rel m0"])
     (simp_all add: inhibit_def engram_member_def tau_register_memory)

lemma tau_run_ops: "tau_rel m (run_ops L ops m)"
  by (rule run_ops_preserves [where P = "tau_rel m"]) (simp_all add: tau_apply_op)


lemma tau_inv_fresh: "tau_inv (fresh_manager L entropy c)"
  by (simp add: tau_inv_def tau_in_range_def fresh_manager_def)

lemma tau_inv_new:
  "new_manager L entropy args = Inr m \<Longrightarrow> tau_inv m"
  by (auto simp: new_manager_def bindE_def tau_inv_fresh split: if_splits sum.splits)

text \<open>
  Claim C9, as the code has it. (1) A manager built by the constructor has, after any
  sequence of public calls, a radius within \<open>[0.05, 0.6]\<close>, a window of at most 5000
  distances, and, when the window is non-empty, the radius is the clamped median of the
  window. (2) Every push into the window leaves the radius equal to the clamped median
  of the window. (3) From any state, a loaded one among them, a sequence of public calls
  leaves the window and the radius as they were, or ends with a non-empty window whose
  clamped median is the radius.

  What \<open>from_dict\<close> and \<open>load_json\<close> make of the radius is not part of the statement: they
  take it from the \<open>territory_tau\<close> entry of the snapshot through \<open>clamp_float\<close> and do not
  look at the window (the example below), and \<open>clamp_float\<close> returns a NaN as it is, each
  of its comparisons being false.
\<close>

theorem tau_clamped_median:
  "(new_manager L entropy args = Inr m \<longrightarrow> tau_inv (run_ops L ops m))
   \<and> tau_consistent (record_nn_distance m_push d)
   \<and> tau_rel m_any (run_ops L ops m_any)"
proof (intro conjI impI)
  assume "new_manager L entropy args = Inr m"
  then have "tau_inv m" by (rule tau_inv_new)
  with tau_run_ops [of m L ops] show "tau_inv (run_ops L ops m)" by (rule tau_rel_inv)
next
  show "tau_consistent (record_nn_distance m_push d)" by (rule tau_consistent_record_nn_distance)
next
  show "tau_rel m_any (run_ops L ops m_any)" by (rule tau_run_ops)
qed

lemma new_manager_args_seeded:
  "new_manager lib0 e args_seeded = Inr (fresh_manager lib0 e config0)"
  by (simp add: new_manager_def args_seeded_def param_names_def config_defaults_def required_params_def
      validate_config_def kwarg_def require_int_def clamp_float_def clamp_real_def
      seed_arg_def bindE_def clamp01_def config0_def)

lemma sanitize_empty: "sanitize_config (JObject []) = Inr config_defaults"
  by (simp add: sanitize_config_def)

lemma new_manager_defaults:
  "new_manager L e config_defaults = Inr (fresh_manager L e config_default)"
  by (simp add: new_manager_def param_names_def config_defaults_def required_params_def
      validate_config_def kwarg_def require_int_def clamp_float_def clamp_real_def
      seed_arg_def bindE_def clamp01_def config_default_def)

lemma load_tau_file:
  "load_json lib0 0 ''tau.json'' files_tau =
     Inr (Some ((fresh_manager lib0 0 config_default)\<lparr>nn_distances := [0.5], territory_tau := 0.1\<rparr>))"
  unfolding load_json_def files_tau_def
  apply (simp add: sanitize_empty bindE_def new_manager_defaults)
  apply (simp add: populate_manager_from_dict_def bindE_def 
      Let_def clamp_real_def load_nn_def dq_append_def fresh_manager_def)
  done

text \<open>
  A snapshot whose \<open>territory_tau\<close> entry is 0.1 and whose window holds the one distance
  0.5 is loaded with radius 0.1, while the clamped median of the loaded window is 0.5.
\<close>

theorem load_tau_not_median_counterexample:
  "\<exists>m. load_json lib0 0 ''tau.json'' files_tau = Inr (Some m)
       \<and> nn_distances m = [0.5] \<and> territory_tau m = 0.1
       \<and> clamp_real (median (nn_distances m)) 0.05 0.6 = 0.5 \<and> \<not> tau_inv m"
  unfolding load_tau_file
  by (simp add: median_def clamp_real_def tau_inv_def)

theorem tau_clamped_median_witness:
  "\<exists>m. new_manager lib0 0 args_seeded = Inr m \<and> tau_inv (run_ops lib0 ops_example m)"
proof -
  let ?m = "fresh_manager lib0 0 config0"
  have a: "new_manager lib0 0 args_seeded = Inr ?m" by (rule new_manager_args_seeded)
  from tau_clamped_median [where L = lib0 and entropy = 0 and ops = ops_example
      and args = args_seeded and m = ?m] a
  have "tau_inv (run_ops lib0 ops_example ?m)" by blast
  with a show ?thesis by blast
qed


end
